theory Spec2Isabelle
  imports Complex_Main "HOL-Library.AList" "HOL-Library.Multiset"
begin

section \<open>Python values and errors\<close>

text \<open>
  The retrieval pipeline of the repository is written in Python (the listings of
  \<^verbatim>\<open>.agent/System/rag_pipeline.md\<close> and of the hackathon roadmap) and the chat widget in
  JavaScript. Every exception a listing can raise is a value of \<open>py_error\<close>; a function that
  can raise returns \<open>py_error + 'a\<close>, with \<open>Inl\<close> for the exception.
\<close>

datatype py_error =
    ProviderError
  | IndexUnavailable
  | DatabaseError
  | JSONDecodeError
  | TypeError
  | IndexError

text \<open>
  Python's \<^verbatim>\<open>xs[i:j]\<close>: a negative bound counts from the end, and both bounds are clamped
  to the length of the sequence.
\<close>

definition slice_bound :: "int \<Rightarrow> int \<Rightarrow> int" where
  "slice_bound n i = (if i < 0 then max 0 (i + n) else min i n)"

definition py_slice :: "'a list \<Rightarrow> int \<Rightarrow> int \<Rightarrow> 'a list" where
  "py_slice xs i j =
     (let n = int (length xs); lo = slice_bound n i; hi = slice_bound n j
      in take (nat (hi - lo)) (drop (nat lo) xs))"

text \<open>
  A text is a list of characters with code points below 256. \<^verbatim>\<open>str.isspace\<close> holds of the
  code points 9 to 13, 28 to 32, 133 and 160 in that range; \<^verbatim>\<open>str.strip()\<close> removes the
  longest whitespace prefix and suffix.
\<close>

definition isspace :: "char \<Rightarrow> bool" where
  "isspace c \<longleftrightarrow> (of_char c :: nat) \<in> {9, 10, 11, 12, 13, 28, 29, 30, 31, 32, 133, 160}"

definition lstrip :: "string \<Rightarrow> string" where
  "lstrip s = dropWhile isspace s"

definition rstrip :: "string \<Rightarrow> string" where
  "rstrip s = rev (dropWhile isspace (rev s))"

definition strip :: "string \<Rightarrow> string" where
  "strip s = rstrip (lstrip s)"

section \<open>Chunking\<close>

text \<open>
  \<^verbatim>\<open>chunk_text\<close> of \<^verbatim>\<open>rag_pipeline.md\<close>. The \<^verbatim>\<open>while\<close> loop carries \<open>start\<close> and the list
  \<open>chunks\<close>; it need not terminate, so not returning is the value \<open>None\<close>. Memory is
  unbounded: a loop that appends for ever does not return.
\<close>

partial_function (option)
  chunk_loop :: "string \<Rightarrow> int \<Rightarrow> int \<Rightarrow> int \<Rightarrow> string list \<Rightarrow> string list option"
where
  "chunk_loop text chunk_size overlap start chunks =
     (if start < int (length text) then
        (let stop = start + chunk_size;
             chunk = py_slice text start stop;
             chunks' = (if strip chunk \<noteq> [] then chunks @ [strip chunk] else chunks)
         in chunk_loop text chunk_size overlap (start + (chunk_size - overlap)) chunks')
      else Some chunks)"

definition chunk_text :: "string \<Rightarrow> int \<Rightarrow> int \<Rightarrow> string list option" where
  "chunk_text text chunk_size overlap = chunk_loop text chunk_size overlap 0 []"

declare chunk_loop.simps [code]

text \<open>
  The windows the loop visits: window \<open>k\<close> is \<^verbatim>\<open>text[start:start + chunk_size]\<close> at
  \<open>start = k * (chunk_size - overlap)\<close>, for every \<open>k\<close> whose start lies inside the text.
  \<open>kept\<close> is what the loop body appends: the window stripped, unless nothing is left of it.
  \<open>reassemble\<close> glues chunks back together, leaving out the first \<open>overlap\<close> characters of
  every chunk but the first.
\<close>

definition window_count :: "string \<Rightarrow> int \<Rightarrow> int \<Rightarrow> nat" where
  "window_count text chunk_size overlap =
     nat ((int (length text) + (chunk_size - overlap) - 1) div (chunk_size - overlap))"

definition window :: "string \<Rightarrow> int \<Rightarrow> int \<Rightarrow> nat \<Rightarrow> string" where
  "window text chunk_size overlap k =
     py_slice text (int k * (chunk_size - overlap)) (int k * (chunk_size - overlap) + chunk_size)"

definition windows :: "string \<Rightarrow> int \<Rightarrow> int \<Rightarrow> string list" where
  "windows text chunk_size overlap =
     map (window text chunk_size overlap) [0 ..< window_count text chunk_size overlap]"

definition kept :: "string list \<Rightarrow> string list" where
  "kept ws = map strip (filter (\<lambda>w. strip w \<noteq> []) ws)"

fun reassemble :: "int \<Rightarrow> string list \<Rightarrow> string" where
  "reassemble overlap [] = []"
| "reassemble overlap (c # cs) = c @ concat (map (drop (nat overlap)) cs)"

text \<open>
  The chunker as the specification words it: the windows themselves, without those that
  are whitespace-only or shorter than a minimum length.
\<close>

definition chunk_spec :: "nat \<Rightarrow> string \<Rightarrow> int \<Rightarrow> int \<Rightarrow> string list" where
  "chunk_spec minimum text chunk_size overlap =
     filter (\<lambda>w. \<not> (strip w = [] \<or> length w < minimum)) (windows text chunk_size overlap)"


section \<open>Retrieval\<close>

text \<open>
  The dictionaries of the listings are records. What is stored under a chunk is its
  \<open>content\<close>, \<open>source_type\<close> and \<open>metadata\<close>; the payload of an indexed point adds the
  \<open>tenant_id\<close>, a search result adds the \<open>score\<close>, and the results of \<^verbatim>\<open>search_qdrant\<close> carry
  the point's \<^verbatim>\<open>id\<close> as well. The metadata read by the pipeline are strings, kept as an
  association list. A score is a real number: only its order matters here.
\<close>

record knowledge =
  content :: string
  source_type :: string
  metadata :: "(string \<times> string) list"

record payload = knowledge +
  tenant_id :: string

record chunk = knowledge +
  score :: real

record candidate = chunk +
  chunk_id :: string

record point =
  point_id :: string
  vector :: "real list"
  point_payload :: payload

record hit =
  hit_id :: string
  hit_score :: real
  hit_payload :: payload

subsection \<open>The vector index\<close>

text \<open>
  Modelled from the spec: the search of the vector index (the Qdrant service, reached
  through \<^verbatim>\<open>qdrant_client.search\<close>), which is not part of the repository. Section 4.3 of the
  specification: it returns at most \<open>limit\<close> entries, sorted by descending similarity to the
  query vector, restricted to the entries that match every condition of the filter, ties
  in insertion order; against an empty index it returns nothing, and an unreachable index
  is an error. The similarity of two vectors is a parameter.
\<close>

datatype condition =
    MatchValue string string
  | MatchAny string "string list"

datatype qdrant = Unreachable | Collection "point list"

definition payload_get :: "payload \<Rightarrow> string \<Rightarrow> string option" where
  "payload_get p key =
     (if key = ''tenant_id'' then Some (tenant_id p)
      else if key = ''source_type'' then Some (source_type p)
      else if key = ''content'' then Some (content p)
      else None)"

fun satisfies :: "payload \<Rightarrow> condition \<Rightarrow> bool" where
  "satisfies p (MatchValue key v) = (payload_get p key = Some v)"
| "satisfies p (MatchAny key vs) =
     (case payload_get p key of None \<Rightarrow> False | Some v \<Rightarrow> v \<in> set vs)"

definition qdrant_search ::
  "(real list \<Rightarrow> real list \<Rightarrow> real) \<Rightarrow> qdrant \<Rightarrow> real list \<Rightarrow> nat \<Rightarrow> condition list
     \<Rightarrow> py_error + hit list" where
  "qdrant_search similarity index query_vector limit must =
     (case index of
        Unreachable \<Rightarrow> Inl IndexUnavailable
      | Collection points \<Rightarrow>
          Inr (take limit
            (sort_key (\<lambda>h. - hit_score h)
              (map (\<lambda>p. \<lparr>hit_id = point_id p,
                         hit_score = similarity query_vector (vector p),
                         hit_payload = point_payload p\<rparr>)
                (filter (\<lambda>p. list_all (satisfies (point_payload p)) must) points)))))"

subsection \<open>Searches\<close>

text \<open>
  \<^verbatim>\<open>search_qdrant\<close> of \<^verbatim>\<open>rag_pipeline.md\<close> and \<^verbatim>\<open>search_knowledge\<close> of the roadmap. The
  embedding provider is the parameter \<open>embed_text\<close>; it can fail. \<open>top_k\<close> is the limit
  handed to the index, a count.
\<close>

definition search_qdrant ::
  "(string \<Rightarrow> py_error + real list) \<Rightarrow> (real list \<Rightarrow> real list \<Rightarrow> real) \<Rightarrow> qdrant
     \<Rightarrow> string \<Rightarrow> string \<Rightarrow> nat \<Rightarrow> py_error + candidate list" where
  "search_qdrant embed_text similarity index query tenant top_k =
     (case embed_text query of
        Inl e \<Rightarrow> Inl e
      | Inr embedding \<Rightarrow>
          (case qdrant_search similarity index embedding top_k
                  [MatchValue ''tenant_id'' tenant,
                   MatchAny ''source_type'' [''document'', ''website'']] of
             Inl e \<Rightarrow> Inl e
           | Inr results \<Rightarrow>
               Inr (map (\<lambda>h. \<lparr>content = content (hit_payload h),
                               source_type = source_type (hit_payload h),
                               metadata = metadata (hit_payload h),
                               score = hit_score h,
                               chunk_id = hit_id h\<rparr>) results)))"

definition search_knowledge ::
  "(string \<Rightarrow> py_error + real list) \<Rightarrow> (real list \<Rightarrow> real list \<Rightarrow> real) \<Rightarrow> qdrant
     \<Rightarrow> string \<Rightarrow> string \<Rightarrow> nat \<Rightarrow> py_error + chunk list" where
  "search_knowledge embed_text similarity index query tenant top_k =
     (case embed_text query of
        Inl e \<Rightarrow> Inl e
      | Inr query_embedding \<Rightarrow>
          (case qdrant_search similarity index query_embedding top_k
                  [MatchValue ''tenant_id'' tenant] of
             Inl e \<Rightarrow> Inl e
           | Inr results \<Rightarrow>
               Inr (map (\<lambda>h. \<lparr>content = content (hit_payload h),
                               source_type = source_type (hit_payload h),
                               metadata = metadata (hit_payload h),
                               score = hit_score h\<rparr>) results)))"

subsection \<open>Multi-query search\<close>

text \<open>
  \<^verbatim>\<open>multi_query_search\<close>. \<open>search_each\<close> is its \<^verbatim>\<open>for\<close> loop, which extends \<open>all_chunks\<close>
  with the five best results of every query and stops at the first search that raises.
  \<open>merge_chunks\<close> is the rest of the body. The dictionary comprehension
  \<^verbatim>\<open>{chunk["id"]: chunk for chunk in all_chunks}\<close> assigns the chunks one after the other:
  a key seen before keeps its place and takes the new value. \<^verbatim>\<open>sorted(..., reverse=True)\<close>
  is stable: chunks of equal score keep their order.
\<close>

fun search_each ::
  "(string \<Rightarrow> py_error + real list) \<Rightarrow> (real list \<Rightarrow> real list \<Rightarrow> real) \<Rightarrow> qdrant
     \<Rightarrow> string \<Rightarrow> string list \<Rightarrow> candidate list \<Rightarrow> py_error + candidate list" where
  "search_each embed_text similarity index tenant [] all_chunks = Inr all_chunks"
| "search_each embed_text similarity index tenant (query # queries) all_chunks =
     (case search_qdrant embed_text similarity index query tenant 5 of
        Inl e \<Rightarrow> Inl e
      | Inr chunks \<Rightarrow>
          search_each embed_text similarity index tenant queries (all_chunks @ chunks))"

definition unique_chunks :: "candidate list \<Rightarrow> (string \<times> candidate) list" where
  "unique_chunks all_chunks =
     foldl (\<lambda>d chunk. AList.update (chunk_id chunk) chunk d) [] all_chunks"

definition merge_chunks :: "candidate list \<Rightarrow> candidate list" where
  "merge_chunks all_chunks =
     (let sorted_chunks = sort_key (\<lambda>x. - score x) (map snd (unique_chunks all_chunks))
      in py_slice sorted_chunks 0 12)"

definition multi_query_search ::
  "(string \<Rightarrow> py_error + real list) \<Rightarrow> (real list \<Rightarrow> real list \<Rightarrow> real) \<Rightarrow> qdrant
     \<Rightarrow> string list \<Rightarrow> string \<Rightarrow> py_error + candidate list" where
  "multi_query_search embed_text similarity index queries tenant =
     (case search_each embed_text similarity index tenant queries [] of
        Inl e \<Rightarrow> Inl e
      | Inr all_chunks \<Rightarrow> Inr (merge_chunks all_chunks))"

subsection \<open>Score-based reranking\<close>

text \<open>\<^verbatim>\<open>rerank_by_score\<close>: \<^verbatim>\<open>sorted(chunks, key=score, reverse=True)[:top_k]\<close>.\<close>

definition rerank_by_score :: "('a chunk_scheme) list \<Rightarrow> int \<Rightarrow> ('a chunk_scheme) list" where
  "rerank_by_score chunks top_k = py_slice (sort_key (\<lambda>x. - score x) chunks) 0 top_k"

text \<open>Sample services for the examples: a constant embedding and the dot product.\<close>

definition unit_embedding :: "string \<Rightarrow> py_error + real list" where
  "unit_embedding query = Inr [1]"

definition dot :: "real list \<Rightarrow> real list \<Rightarrow> real" where
  "dot u v = sum_list (map (\<lambda>(a, b). a * b) (zip u v))"

definition faq_point :: "string \<Rightarrow> string \<Rightarrow> real \<Rightarrow> point" where
  "faq_point pid tenant weight =
     \<lparr>point_id = pid, vector = [weight],
      point_payload = \<lparr>content = ''Delivery takes 3 to 5 business days.'',
                        source_type = ''website'',
                        metadata = [(''url'', ''https://example.com/delivery'')],
                        tenant_id = tenant\<rparr>\<rparr>"

subsection \<open>Tenants, and sample data for the examples\<close>

text \<open>
  \<open>owned_by\<close>: the candidate has the id and content of a point stored for the tenant.
  \<open>stored_for\<close>: the chunk, which carries no id, has the content, source type and metadata
  of a point stored for the tenant.
\<close>

definition owned_by :: "string \<Rightarrow> point list \<Rightarrow> candidate \<Rightarrow> bool" where
  "owned_by tenant points c \<longleftrightarrow>
     (\<exists>p \<in> set points. point_id p = chunk_id c \<and> tenant_id (point_payload p) = tenant \<and>
        content (point_payload p) = content c)"

definition stored_for :: "string \<Rightarrow> point list \<Rightarrow> 'a chunk_scheme \<Rightarrow> bool" where
  "stored_for tenant points c \<longleftrightarrow>
     (\<exists>p \<in> set points. tenant_id (point_payload p) = tenant \<and>
        content (point_payload p) = content c \<and>
        source_type (point_payload p) = source_type c \<and>
        metadata (point_payload p) = metadata c)"

definition faq_hit :: "string \<Rightarrow> real \<Rightarrow> candidate" where
  "faq_hit cid s =
     \<lparr>content = ''Delivery takes 3 to 5 business days.'', source_type = ''website'',
      metadata = [(''url'', ''https://example.com/delivery'')], score = s, chunk_id = cid\<rparr>"

definition scored :: "real \<Rightarrow> chunk" where
  "scored s = \<lparr>content = ''text'', source_type = ''document'', metadata = [], score = s\<rparr>"

section \<open>Context formatter\<close>

text \<open>
  \<^verbatim>\<open>sep.join(parts)\<close>, \<^verbatim>\<open>str(i)\<close> for a counter \<open>i \<ge> 0\<close>, \<^verbatim>\<open>a or b\<close> on values that are a
  string or \<^verbatim>\<open>None\<close> (the empty string and \<^verbatim>\<open>None\<close> are falsy), and the rendering of such a
  value inside an f-string.
\<close>

definition newline :: char where
  "newline = CHR 0x0A"

fun join :: "string \<Rightarrow> string list \<Rightarrow> string" where
  "join sep [] = []"
| "join sep [x] = x"
| "join sep (x # y # ys) = x @ sep @ join sep (y # ys)"

definition digit_char :: "nat \<Rightarrow> char" where
  "digit_char d = char_of (48 + d)"

fun str_nat :: "nat \<Rightarrow> string" where
  "str_nat n = (if n < 10 then [digit_char n] else str_nat (n div 10) @ [digit_char (n mod 10)])"

declare str_nat.simps [simp del]

definition py_or :: "string option \<Rightarrow> string option \<Rightarrow> string option" where
  "py_or a b = (case a of Some (x # xs) \<Rightarrow> a | _ \<Rightarrow> b)"

definition py_str :: "string option \<Rightarrow> string" where
  "py_str v = (case v of None \<Rightarrow> ''None'' | Some s \<Rightarrow> s)"

definition separator :: string where
  "separator = [newline, newline] @ ''---'' @ [newline, newline]"

text \<open>
  \<^verbatim>\<open>format_rag_context\<close> of the roadmap (\<^verbatim>\<open>app/services/rag.py\<close>). \<open>format_parts\<close> is its
  \<^verbatim>\<open>for i, chunk in enumerate(chunks, 1)\<close> loop, which appends one block to \<open>context_parts\<close>
  per chunk.
\<close>

fun format_parts :: "nat \<Rightarrow> ('a chunk_scheme) list \<Rightarrow> string list \<Rightarrow> string list" where
  "format_parts i [] context_parts = context_parts"
| "format_parts i (chunk # chunks) context_parts =
     (let source = py_or (map_of (metadata chunk) ''url'')
                     (Some (case map_of (metadata chunk) ''filename'' of
                              None \<Rightarrow> ''Unknown'' | Some f \<Rightarrow> f))
      in format_parts (i + 1) chunks
           (context_parts @
              [''Source '' @ str_nat i @ '': '' @ py_str source @ [newline] @ content chunk]))"

definition format_rag_context :: "('a chunk_scheme) list \<Rightarrow> string" where
  "format_rag_context chunks =
     (if chunks = [] then [] else join separator (format_parts 1 chunks []))"

text \<open>
  \<^verbatim>\<open>format_rag_context\<close> of \<^verbatim>\<open>rag_pipeline.md\<close>. Its block is a triple-quoted f-string that
  opens with a newline and closes with a newline and eight spaces, stripped as a whole.
\<close>

fun pipeline_parts :: "nat \<Rightarrow> ('a chunk_scheme) list \<Rightarrow> string list \<Rightarrow> string list" where
  "pipeline_parts i [] context_parts = context_parts"
| "pipeline_parts i (chunk # chunks) context_parts =
     (let source = py_or (map_of (metadata chunk) ''source_url'')
                     (map_of (metadata chunk) ''filename'')
      in pipeline_parts (i + 1) chunks
           (context_parts @
              [strip ([newline] @ ''Source '' @ str_nat i @ '': '' @ py_str source @ [newline] @
                      content chunk @ [newline] @ ''        '')]))"

definition format_rag_context_pipeline :: "('a chunk_scheme) list \<Rightarrow> string" where
  "format_rag_context_pipeline chunks = join separator (pipeline_parts 1 chunks [])"

text \<open>
  The block the specification describes: the label \<open>Source N: <source>\<close>, a newline and the
  text. \<open>source_label\<close> and \<open>pipeline_label\<close> are the source identifiers of the two listings.
\<close>

definition source_block :: "nat \<Rightarrow> string \<Rightarrow> string \<Rightarrow> string" where
  "source_block n source text = ''Source '' @ str_nat n @ '': '' @ source @ [newline] @ text"

definition source_label :: "'a chunk_scheme \<Rightarrow> string" where
  "source_label chunk =
     py_str (py_or (map_of (metadata chunk) ''url'')
               (Some (case map_of (metadata chunk) ''filename'' of
                        None \<Rightarrow> ''Unknown'' | Some f \<Rightarrow> f)))"

definition pipeline_label :: "'a chunk_scheme \<Rightarrow> string" where
  "pipeline_label chunk =
     py_str (py_or (map_of (metadata chunk) ''source_url'') (map_of (metadata chunk) ''filename''))"

section \<open>Calls to the language model\<close>

text \<open>
  What \<^verbatim>\<open>json.loads\<close> returns. The language model and \<^verbatim>\<open>json.loads\<close> are outside the
  repository: the outcome of \<^verbatim>\<open>llm.invoke(prompt)\<close> is the parameter \<open>response\<close>, an error or
  the content of the answer (the prompt reaches nothing but the provider), and the decoder
  is the parameter \<open>loads\<close>.
\<close>

datatype json =
    JNull
  | JBool bool
  | JInt int
  | JFloat real
  | JString string
  | JArray "json list"
  | JObject "(string \<times> json) list"

fun is_array :: "json \<Rightarrow> bool" where
  "is_array (JArray vs) = True"
| "is_array v = False"

text \<open>
  \<^verbatim>\<open>generate_query_variants\<close>: \<^verbatim>\<open>[original_query] + variants\<close> raises \<^verbatim>\<open>TypeError\<close> unless
  \<open>variants\<close> is a list; the elements of the list are not looked at.
\<close>

definition generate_query_variants ::
  "(string \<Rightarrow> py_error + json) \<Rightarrow> py_error + string \<Rightarrow> string \<Rightarrow> py_error + json list" where
  "generate_query_variants loads response original_query =
     (case response of
        Inl e \<Rightarrow> Inl e
      | Inr response_content \<Rightarrow>
          (case loads response_content of
             Inl e \<Rightarrow> Inl e
           | Inr variants \<Rightarrow>
               (case variants of
                  JArray vs \<Rightarrow> Inr (JString original_query # vs)
                | _ \<Rightarrow> Inl TypeError)))"

text \<open>
  \<^verbatim>\<open>rerank_with_llm\<close>. \<open>py_getitem\<close> is \<^verbatim>\<open>chunks[i]\<close>: an integer index (a boolean is an
  integer in Python) counts from the end when negative and raises \<^verbatim>\<open>IndexError\<close> out of
  range; any other index raises \<^verbatim>\<open>TypeError\<close>. \<open>select\<close> is the list comprehension, which
  stops at the first index that raises. Slicing a decoded string gives a string, whose
  characters are not indices; any other decoded value that is not a list cannot be sliced
  (a decoded object raises \<^verbatim>\<open>KeyError\<close> instead of \<^verbatim>\<open>TypeError\<close> from Python 3.12 on; both are
  \<^verbatim>\<open>TypeError\<close> here).
\<close>

fun py_getitem :: "'a list \<Rightarrow> json \<Rightarrow> py_error + 'a" where
  "py_getitem xs (JInt i) =
     (if 0 \<le> i \<and> i < int (length xs) then Inr (xs ! nat i)
      else if - int (length xs) \<le> i \<and> i < 0 then Inr (xs ! nat (i + int (length xs)))
      else Inl IndexError)"
| "py_getitem xs (JBool b) =
     (let j = (if b then 1 else 0)
      in if j < length xs then Inr (xs ! j) else Inl IndexError)"
| "py_getitem xs v = Inl TypeError"

fun select :: "'a list \<Rightarrow> json list \<Rightarrow> py_error + 'a list" where
  "select chunks [] = Inr []"
| "select chunks (i # indices) =
     (case py_getitem chunks i of
        Inl e \<Rightarrow> Inl e
      | Inr c \<Rightarrow>
          (case select chunks indices of
             Inl e \<Rightarrow> Inl e
           | Inr cs \<Rightarrow> Inr (c # cs)))"

definition rerank_with_llm ::
  "(string \<Rightarrow> py_error + json) \<Rightarrow> py_error + string \<Rightarrow> 'a list \<Rightarrow> int \<Rightarrow> py_error + 'a list" where
  "rerank_with_llm loads response chunks top_k =
     (case response of
        Inl e \<Rightarrow> Inl e
      | Inr response_content \<Rightarrow>
          (case loads response_content of
             Inl e \<Rightarrow> Inl e
           | Inr selected_indices \<Rightarrow>
               (case selected_indices of
                  JArray indices \<Rightarrow> select chunks (py_slice indices 0 top_k)
                | JString s \<Rightarrow> (if py_slice s 0 top_k = [] then Inr [] else Inl TypeError)
                | _ \<Rightarrow> Inl TypeError)))"

text \<open>
  An index the comprehension accepts, and the position it reads. \<open>sample_loads\<close> is
  \<^verbatim>\<open>json.loads\<close> on the answers used in the examples below; any other answer used there is
  no JSON text.
\<close>

fun accepted_index :: "nat \<Rightarrow> json \<Rightarrow> bool" where
  "accepted_index n (JInt i) = (- int n \<le> i \<and> i < int n)"
| "accepted_index n (JBool b) = ((if b then 1 else 0) < n)"
| "accepted_index n v = False"

fun position :: "nat \<Rightarrow> json \<Rightarrow> nat" where
  "position n (JInt i) = nat (if i < 0 then i + int n else i)"
| "position n (JBool b) = (if b then 1 else 0)"
| "position n v = 0"

definition sample_loads :: "string \<Rightarrow> py_error + json" where
  "sample_loads s =
     (if s = ''[0, 0]'' then Inr (JArray [JInt 0, JInt 0])
      else if s = ''[5]'' then Inr (JArray [JInt 5])
      else if s = ''[-1, 0]'' then Inr (JArray [JInt (- 1), JInt 0])
      else if s = ''{}'' then Inr (JObject [])
      else if s = ''['' @ [CHR 0x22] @ ''delivery time'' @ [CHR 0x22] @ '']''
        then Inr (JArray [JString ''delivery time''])
      else Inl JSONDecodeError)"

text \<open>A sample chunk of a crawled page, for the examples.\<close>

definition page_chunk :: "string \<Rightarrow> chunk" where
  "page_chunk text = \<lparr>content = text, source_type = ''website'',
     metadata = [(''source_url'', ''u'')], score = 1\<rparr>"

section \<open>Answering a message\<close>

subsection \<open>The endpoint\<close>

text \<open>
  The database (Supabase) is outside the repository: it is unreachable, and every call
  raises, or it holds the rows of \<^verbatim>\<open>conversations\<close> (id, tenant, user, channel) and of
  \<^verbatim>\<open>conversation_messages\<close> (conversation id, role, content). \<^verbatim>\<open>save_conversation\<close> returns
  the id of the conversation it finds or creates; \<^verbatim>\<open>save_message\<close> inserts a row.
\<close>

datatype supabase =
    DbUnreachable
  | Db "(nat \<times> string \<times> string \<times> string) list" "(nat \<times> string \<times> string) list"

definition save_conversation ::
  "supabase \<Rightarrow> string \<Rightarrow> string \<Rightarrow> string \<Rightarrow> py_error + nat \<times> supabase" where
  "save_conversation db tenant user channel =
     (case db of
        DbUnreachable \<Rightarrow> Inl DatabaseError
      | Db conversations rows \<Rightarrow>
          (case find (\<lambda>(i, t, u, c). t = tenant \<and> u = user \<and> c = channel) conversations of
             Some (i, t, u, c) \<Rightarrow> Inr (i, db)
           | None \<Rightarrow>
               Inr (length conversations,
                    Db (conversations @ [(length conversations, tenant, user, channel)]) rows)))"

definition save_message ::
  "supabase \<Rightarrow> nat \<Rightarrow> string \<Rightarrow> string \<Rightarrow> py_error + supabase" where
  "save_message db conversation_id role text =
     (case db of
        DbUnreachable \<Rightarrow> Inl DatabaseError
      | Db conversations rows \<Rightarrow> Inr (Db conversations (rows @ [(conversation_id, role, text)])))"

text \<open>
  \<^verbatim>\<open>str.lower()\<close> on code points below 256, and the substring test \<^verbatim>\<open>sub in s\<close>.
\<close>

definition lower_char :: "char \<Rightarrow> char" where
  "lower_char c =
     (let n = (of_char c :: nat)
      in if (65 \<le> n \<and> n \<le> 90) \<or> (192 \<le> n \<and> n \<le> 222 \<and> n \<noteq> 215) then char_of (n + 32) else c)"

definition lower :: "string \<Rightarrow> string" where
  "lower s = map lower_char s"

fun contains :: "string \<Rightarrow> string \<Rightarrow> bool" where
  "contains sub [] = (sub = [])"
| "contains sub (c # cs) = (take (length sub) (c # cs) = sub \<or> contains sub cs)"

text \<open>
  The request and the response of \<^verbatim>\<open>/api/v1/support/message\<close>, and the services the
  endpoint reaches: the embedding provider, the index with its similarity, the chat model
  (a list of role and content pairs in, the content of the answer or an error out) and the
  constant \<^verbatim>\<open>FAQ_SYSTEM_PROMPT\<close>.
\<close>

record message_request =
  request_tenant_id :: string
  request_user_id :: string
  request_channel :: string
  request_content :: string

record message_response =
  response :: string
  intent :: "string option"
  sources :: "string list option"

record services =
  svc_embed_text :: "string \<Rightarrow> py_error + real list"
  svc_similarity :: "real list \<Rightarrow> real list \<Rightarrow> real"
  svc_index :: qdrant
  svc_llm :: "(string \<times> string) list \<Rightarrow> py_error + string"
  svc_faq_prompt :: string

definition handle_faq :: "services \<Rightarrow> string \<Rightarrow> py_error + string" where
  "handle_faq svc query = svc_llm svc [(''system'', svc_faq_prompt svc), (''user'', query)]"

text \<open>
  \<^verbatim>\<open>handle_message\<close> of the roadmap, phase 5. It has no \<^verbatim>\<open>try\<close>: the first call that raises
  ends it, and what was saved before stays saved. The result is the response or the
  exception, with the database as the call leaves it. \<open>routes_to_faq\<close> is the keyword test of
  its \<^verbatim>\<open>if\<close>, and \<open>respond\<close> the two branches that compute \<^verbatim>\<open>response_text\<close>: the FAQ handler,
  or the search of the knowledge base followed by the call of the chat model with the
  formatted context.

  The listing writes its first call as \<^verbatim>\<open>save_conversation(...)\<close>. As written, this hands
  \<^verbatim>\<open>save_conversation\<close> the single value \<^verbatim>\<open>Ellipsis\<close> where it takes three arguments, and
  Python raises \<^verbatim>\<open>TypeError\<close> at the call. \<open>call_save_conversation\<close> is that call on a list
  of arguments, and \<open>handle_message_with\<close> is the body of the listing with the arguments of
  the call as a parameter. \<open>handle_message\<close> is the listing as it is written.
  \<open>handle_message_completed\<close> is a reading of the listing, not what it says: the three dots
  taken as an elision and the call completed with the tenant, user and channel of the
  request, the arguments this call has in the phase 1.4 listing of the same endpoint.
\<close>

definition routes_to_faq :: "string \<Rightarrow> bool" where
  "routes_to_faq text \<longleftrightarrow> contains ''livraison'' (lower text) \<or> contains ''retour'' (lower text)"

definition respond :: "services \<Rightarrow> message_request \<Rightarrow> py_error + string" where
  "respond svc request =
     (if routes_to_faq (request_content request) then handle_faq svc (request_content request)
      else
        (case search_knowledge (svc_embed_text svc) (svc_similarity svc) (svc_index svc)
                (request_content request) (request_tenant_id request) 3 of
           Inl e \<Rightarrow> Inl e
         | Inr chunks \<Rightarrow>
             svc_llm svc [(''system'', ''Use this context:'' @ [newline] @ format_rag_context chunks),
                      (''user'', request_content request)]))"

datatype py_arg = Ellipsis | Str string

definition call_save_conversation :: "supabase \<Rightarrow> py_arg list \<Rightarrow> py_error + nat \<times> supabase" where
  "call_save_conversation db args =
     (case args of
        [Str tenant, Str user, Str channel] \<Rightarrow> save_conversation db tenant user channel
      | _ \<Rightarrow> Inl TypeError)"

definition handle_message_with ::
  "(message_request \<Rightarrow> py_arg list) \<Rightarrow> services \<Rightarrow> supabase \<Rightarrow> message_request
     \<Rightarrow> (py_error + message_response) \<times> supabase" where
  "handle_message_with args svc db request =
     (case call_save_conversation db (args request) of
        Inl e \<Rightarrow> (Inl e, db)
      | Inr (conv, db1) \<Rightarrow>
          (case save_message db1 conv ''user'' (request_content request) of
             Inl e \<Rightarrow> (Inl e, db1)
           | Inr db2 \<Rightarrow>
               (case respond svc request of
                  Inl e \<Rightarrow> (Inl e, db2)
                | Inr response_text \<Rightarrow>
                    (case save_message db2 conv ''assistant'' response_text of
                       Inl e \<Rightarrow> (Inl e, db2)
                     | Inr db3 \<Rightarrow>
                         (Inr \<lparr>response = response_text, intent = Some ''faq'', sources = None\<rparr>,
                          db3)))))"

definition handle_message ::
  "services \<Rightarrow> supabase \<Rightarrow> message_request \<Rightarrow> (py_error + message_response) \<times> supabase" where
  "handle_message svc db request = handle_message_with (\<lambda>r. [Ellipsis]) svc db request"

definition handle_message_completed ::
  "services \<Rightarrow> supabase \<Rightarrow> message_request \<Rightarrow> (py_error + message_response) \<times> supabase" where
  "handle_message_completed svc db request =
     handle_message_with
       (\<lambda>r. [Str (request_tenant_id r), Str (request_user_id r), Str (request_channel r)])
       svc db request"

subsection \<open>The chat widget\<close>

text \<open>
  \<^verbatim>\<open>sendMessage\<close> of the widget. The widget holds the text of its input field, the messages
  it shows (content and role), whether the typing indicator is shown, and the conversation
  id. The outcome of \<^verbatim>\<open>fetch\<close> is a parameter, a function of the content and conversation
  id posted: the request fails, or a response arrives with its \<^verbatim>\<open>ok\<close> flag and a body that
  \<^verbatim>\<open>response.json()\<close> decodes or rejects. \<open>js_trim\<close> is \<^verbatim>\<open>String.prototype.trim\<close> on code
  points below 256, \<open>truthy\<close> the truth value of a decoded value, \<open>property\<close> the read of a
  property of the decoded body, which throws on \<^verbatim>\<open>null\<close>. \<open>caught\<close> is the \<^verbatim>\<open>catch\<close> block. A
  message is kept as the value handed to \<^verbatim>\<open>addMessage\<close>, before it is rendered as text.
\<close>

record widget =
  input_value :: string
  messages :: "(json \<times> string) list"
  typing :: bool
  conversationId :: json

datatype fetch_outcome = NetworkError | Response bool "json option"

definition js_isspace :: "char \<Rightarrow> bool" where
  "js_isspace c \<longleftrightarrow> (of_char c :: nat) \<in> {9, 10, 11, 12, 13, 32, 160}"

definition js_trim :: "string \<Rightarrow> string" where
  "js_trim s = rev (dropWhile js_isspace (rev (dropWhile js_isspace s)))"

fun truthy :: "json \<Rightarrow> bool" where
  "truthy JNull = False"
| "truthy (JBool b) = b"
| "truthy (JInt i) = (i \<noteq> 0)"
| "truthy (JFloat r) = (r \<noteq> 0)"
| "truthy (JString s) = (s \<noteq> [])"
| "truthy (JArray vs) = True"
| "truthy (JObject kvs) = True"

fun property :: "json \<Rightarrow> string \<Rightarrow> json option" where
  "property (JObject kvs) key = map_of kvs key"
| "property v key = None"

definition connection_fallback :: string where
  "connection_fallback =
     ''D'' @ [CHR 0xE9] @ ''sol'' @ [CHR 0xE9] @ '', j'' @ [CHR 0x27] @ ''ai des probl'' @ [CHR 0xE8] @
     ''mes de connexion. Veuillez r'' @ [CHR 0xE9] @ ''essayer plus tard.''"

definition processing_fallback :: string where
  "processing_fallback =
     ''D'' @ [CHR 0xE9] @ ''sol'' @ [CHR 0xE9] @ '', je n'' @ [CHR 0x27] @ ''ai pas pu traiter cela.''"

definition addMessage :: "widget \<Rightarrow> json \<Rightarrow> string \<Rightarrow> widget" where
  "addMessage w text role = w\<lparr>messages := messages w @ [(text, role)]\<rparr>"

definition caught :: "widget \<Rightarrow> widget" where
  "caught w = addMessage (w\<lparr>typing := False\<rparr>) (JString connection_fallback) ''assistant''"

definition sendMessage :: "(string \<Rightarrow> json \<Rightarrow> fetch_outcome) \<Rightarrow> widget \<Rightarrow> widget" where
  "sendMessage fetch w =
     (let message = js_trim (input_value w)
      in if message = [] then w
         else
           (let w1 = (addMessage w (JString message) ''user'')\<lparr>input_value := [], typing := True\<rparr>
            in case fetch message (conversationId w1) of
                 NetworkError \<Rightarrow> caught w1
               | Response ok body \<Rightarrow>
                   (let w2 = w1\<lparr>typing := False\<rparr>
                    in if \<not> ok then caught w2
                       else
                         (case body of
                            None \<Rightarrow> caught w2
                          | Some JNull \<Rightarrow> caught w2
                          | Some data \<Rightarrow>
                              (let w3 = (case property data ''conversation_id'' of
                                           None \<Rightarrow> w2
                                         | Some v \<Rightarrow> if truthy v then w2\<lparr>conversationId := v\<rparr> else w2)
                               in addMessage w3
                                    (case property data ''response'' of
                                       None \<Rightarrow> JString processing_fallback
                                     | Some v \<Rightarrow> if truthy v then v else JString processing_fallback)
                                    ''assistant'')))))"

text \<open>
  Sample services and a sample request for the examples: a chat model that always answers,
  and an index that cannot be reached.
\<close>

definition outage :: services where
  "outage = \<lparr>svc_embed_text = unit_embedding, svc_similarity = dot, svc_index = Unreachable,
             svc_llm = (\<lambda>conversation. Inr ''Our team will check.''),
             svc_faq_prompt = ''You are a helpful customer support assistant.''\<rparr>"

definition opening_hours :: message_request where
  "opening_hours = \<lparr>request_tenant_id = ''t1'', request_user_id = ''u1'',
                    request_channel = ''widget'', request_content = ''What are your opening hours?''\<rparr>"

section \<open>Properties of the chunker\<close>

lemma chunk_loop_Some_imp:
  assumes "chunk_loop text chunk_size overlap start chunks = Some r"
  shows "\<not> (chunk_size \<le> overlap \<and> start < int (length text))"
proof (rule chunk_loop.raw_induct
    [where P = "\<lambda>t cs ov st ch r. \<not> (cs \<le> ov \<and> st < int (length t))", OF _ assms])
  fix f t cs ov st ch y
  assume IH: "\<And>t cs ov st ch y. f t cs ov st ch = Some y \<Longrightarrow> \<not> (cs \<le> ov \<and> st < int (length t))"
    and eq: "(if st < int (length t) then
        (let stop = st + cs; chunk = py_slice t st stop
         in Let (if strip chunk \<noteq> [] then ch @ [strip chunk] else ch) (f t cs ov (st + (cs - ov))))
      else Some ch) = Some y"
  show "\<not> (cs \<le> ov \<and> st < int (length t))"
  proof
    assume a: "cs \<le> ov \<and> st < int (length t)"
    then have b: "st + (cs - ov) < int (length t)" by simp
    from a eq obtain ch' where "f t cs ov (st + (cs - ov)) ch' = Some y"
      by (auto simp: Let_def split: if_splits)
    from IH [OF this] a b show False by simp
  qed
qed

lemma chunk_loop_diverges:
  "chunk_size \<le> overlap \<Longrightarrow> start < int (length text) \<Longrightarrow>
     chunk_loop text chunk_size overlap start chunks = None"
  using chunk_loop_Some_imp [of "text" chunk_size overlap start chunks]
  by (cases "chunk_loop text chunk_size overlap start chunks") auto

lemma kept_append: "kept (xs @ ys) = kept xs @ kept ys"
  by (simp add: kept_def)

lemma ceil_step:
  fixes x s :: int
  assumes "0 < s" "0 < x"
  shows "nat ((x + s - 1) div s) = Suc (nat ((x - s + s - 1) div s))"
proof -
  have "(x + s - 1) div s = (x - s + s - 1) div s + 1"
    using assms by (metis add.commute diff_add_cancel div_add_self2 less_irrefl add_diff_eq)
  moreover have "0 \<le> (x - s + s - 1) div s"
    using assms by (simp add: pos_imp_zdiv_nonneg_iff)
  ultimately show ?thesis by simp
qed

lemma chunk_loop_from:
  assumes "overlap < chunk_size"
  shows "chunk_loop text chunk_size overlap start chunks =
     Some (chunks @ kept (map (\<lambda>k. py_slice text (start + int k * (chunk_size - overlap))
                                   (start + int k * (chunk_size - overlap) + chunk_size))
                    [0 ..< nat ((int (length text) - start + (chunk_size - overlap) - 1)
                               div (chunk_size - overlap))]))"
proof (induction "nat (int (length text) - start)" arbitrary: start chunks rule: less_induct)
  case less
  define s where "s = chunk_size - overlap"
  define g where "g = (\<lambda>st k. py_slice text (st + int k * s) (st + int k * s + chunk_size))"
  define n where "n = (\<lambda>st. nat ((int (length text) - st + s - 1) div s))"
  have s: "0 < s" using assms by (simp add: s_def)
  have goal: "chunk_loop text chunk_size overlap start chunks = Some (chunks @ kept (map (g start) [0 ..< n start]))"
  proof (cases "start < int (length text)")
    case False
    then have "(int (length text) - start + s - 1) div s \<le> 0"
      using s by (smt (verit) div_nonpos_pos_le0 div_pos_pos_trivial)
    then have "n start = 0" by (simp add: n_def)
    with False show ?thesis
      by (subst chunk_loop.simps) (simp add: kept_def)
  next
    case True
    have n: "n start = Suc (n (start + s))"
      using ceil_step [of s "int (length text) - start"] s True
      by (simp add: algebra_simps n_def)
    have upt: "[0 ..< Suc (n (start + s))] = 0 # map Suc [0 ..< n (start + s)]"
      by (simp add: upt_conv_Cons map_Suc_upt del: upt_Suc)
    have IH: "chunk_loop text chunk_size overlap (start + s) acc =
        Some (acc @ kept (map (g (start + s)) [0 ..< n (start + s)]))" for acc
      using less [of "start + s" acc] s True by (simp add: s_def g_def n_def)
    have shift: "g (start + s) k = g start (Suc k)" for k
      by (simp add: g_def algebra_simps)
    have g0: "g start 0 = py_slice text start (start + chunk_size)"
      by (simp add: g_def)
    have ws: "map (g start) [0 ..< n start] = g start 0 # map (g (start + s)) [0 ..< n (start + s)]"
      by (simp only: n upt) (simp add: shift comp_def)
    have unfold: "chunk_loop text chunk_size overlap start chunks =
       chunk_loop text chunk_size overlap (start + s)
         (if strip (g start 0) \<noteq> [] then chunks @ [strip (g start 0)] else chunks)"
      by (subst chunk_loop.simps) (simp add: True Let_def g0 s_def)
    show ?thesis
      by (simp only: unfold IH ws) (simp add: kept_def)
  qed
  then show ?case by (simp add: g_def n_def s_def)
qed

lemma chunk_text_kept_windows:
  assumes "overlap < chunk_size"
  shows "chunk_text text chunk_size overlap = Some (kept (windows text chunk_size overlap))"
  using chunk_loop_from [OF assms, of "text" 0 "[]"]
  by (simp add: chunk_text_def windows_def window_def [abs_def] window_count_def)

lemma py_slice_take_drop:
  assumes "0 \<le> i" "0 \<le> m"
  shows "py_slice xs i (i + m) = take (nat m) (drop (nat i) xs)"
proof (cases "i < int (length xs)")
  case True
  with assms show ?thesis
    by (auto simp: py_slice_def slice_bound_def Let_def min_def nat_diff_distrib nat_add_distrib)
next
  case False
  with assms show ?thesis
    by (simp add: py_slice_def slice_bound_def Let_def min_def)
qed

lemma concat_pieces:
  "concat (map (\<lambda>j. take s (drop (j * s) ys)) [0 ..< m]) = take (m * s) ys"
proof (induction m)
  case 0
  show ?case by simp
next
  case (Suc m)
  have "take (m * s) ys @ take s (drop (m * s) ys) = take (m * s + s) ys"
    by (simp add: take_add)
  with Suc show ?case by (simp add: add.commute)
qed

lemma window_take_drop:
  assumes "0 \<le> overlap" "overlap < chunk_size"
  shows "window text chunk_size overlap k =
     take (nat chunk_size) (drop (k * nat (chunk_size - overlap)) text)"
proof -
  have "0 \<le> int k * (chunk_size - overlap)" using assms by simp
  moreover have "nat (int k * (chunk_size - overlap)) = k * nat (chunk_size - overlap)"
    using assms by (simp add: nat_mult_distrib)
  ultimately show ?thesis
    using assms py_slice_take_drop [of "int k * (chunk_size - overlap)" chunk_size "text"]
    by (simp add: window_def)
qed

lemma window_count_covers:
  assumes "overlap < chunk_size"
  shows "length text \<le> window_count text chunk_size overlap * nat (chunk_size - overlap)"
proof -
  define s where "s = chunk_size - overlap"
  define l where "l = int (length text)"
  have s: "0 < s" using assms by (simp add: s_def)
  have l: "0 \<le> l" by (simp add: l_def)
  have "l + s - 1 - (l + s - 1) mod s = (l + s - 1) div s * s"
    by (simp add: algebra_simps minus_mod_eq_mult_div)
  moreover have "(l + s - 1) mod s \<le> s - 1"
    using s by (simp add: zle_diff1_eq)
  ultimately have "l \<le> (l + s - 1) div s * s" by linarith
  moreover have "0 \<le> (l + s - 1) div s"
    using s l by (simp add: pos_imp_zdiv_nonneg_iff)
  ultimately have "nat l \<le> nat ((l + s - 1) div s) * nat s"
    using s by (metis nat_mono nat_mult_distrib)
  then show ?thesis by (simp add: window_count_def s_def l_def)
qed

lemma reassemble_windows:
  assumes "0 \<le> overlap" "overlap < chunk_size"
  shows "reassemble overlap (windows text chunk_size overlap) = text"
proof (cases "window_count text chunk_size overlap")
  case 0
  with window_count_covers [OF assms(2), of "text"] show ?thesis
    by (simp add: windows_def)
next
  case (Suc m)
  define s where "s = nat (chunk_size - overlap)"
  define sz where "sz = nat chunk_size"
  define ov where "ov = nat overlap"
  have sz: "sz = ov + s" using assms by (simp add: sz_def ov_def s_def)
  have w: "window text chunk_size overlap k = take sz (drop (k * s) text)" for k
    using window_take_drop [OF assms] by (simp add: sz_def s_def)
  have upt: "[0 ..< Suc m] = 0 # map Suc [0 ..< m]"
    by (simp add: upt_conv_Cons map_Suc_upt del: upt_Suc)
  have piece: "drop ov (take sz (drop (Suc j * s) text)) = take s (drop (j * s) (drop sz text))" for j
    by (simp add: drop_take sz ac_simps)
  have cover: "length (drop sz text) \<le> m * s"
    using window_count_covers [OF assms(2), of "text"] Suc
    by (simp add: s_def [symmetric] sz)
  have maps: "map (drop ov) (map (\<lambda>k. take sz (drop (k * s) text)) (map Suc [0 ..< m])) =
      map (\<lambda>j. take s (drop (j * s) (drop sz text))) [0 ..< m]"
    by (simp only: map_map comp_def piece)
  have w': "window text chunk_size overlap = (\<lambda>k. take sz (drop (k * s) text))"
    by (rule ext) (rule w)
  have "reassemble overlap (windows text chunk_size overlap) =
      take sz (drop (0 * s) text) @ concat (map (drop ov)
         (map (\<lambda>k. take sz (drop (k * s) text)) (map Suc [0 ..< m])))"
    by (simp only: windows_def Suc upt w' list.map reassemble.simps ov_def)
  also have "\<dots> = take sz text @ concat (map (\<lambda>j. take s (drop (j * s) (drop sz text))) [0 ..< m])"
    by (simp only: maps) simp
  also have "\<dots> = take sz text @ take (m * s) (drop sz text)"
    by (simp only: concat_pieces)
  also have "\<dots> = text"
    using cover by simp
  finally show ?thesis .
qed

lemma window_start_in_text:
  assumes "overlap < chunk_size" "k < window_count text chunk_size overlap"
  shows "k * nat (chunk_size - overlap) < length text"
proof -
  define s where "s = chunk_size - overlap"
  define l where "l = int (length text)"
  have s: "0 < s" using assms by (simp add: s_def)
  have "int k < (l + s - 1) div s"
    using assms(2) by (simp add: window_count_def s_def l_def)
  then have "int k + 1 \<le> (l + s - 1) div s" by simp
  then have "(int k + 1) * s \<le> (l + s - 1) div s * s"
    using s by (simp add: mult_right_mono)
  also have "\<dots> \<le> l + s - 1"
    using s by (metis mult.commute pos_mod_sign mult_div_mod_eq le_add_same_cancel1)
  finally have "int k * s < l" by (simp add: algebra_simps)
  moreover have "int (nat s) = s" using s by simp
  ultimately have "int (k * nat s) < int (length text)"
    by (simp only: of_nat_mult l_def)
  then show ?thesis by (simp only: s_def of_nat_less_iff)
qed

lemma windows_nonempty:
  assumes "0 \<le> overlap" "overlap < chunk_size" "w \<in> set (windows text chunk_size overlap)"
  shows "w \<noteq> []"
proof -
  from assms(3) obtain k where k: "k < window_count text chunk_size overlap"
    and w: "w = window text chunk_size overlap k"
    by (auto simp: windows_def)
  from window_start_in_text [OF assms(2) k] assms(1,2) show ?thesis
    by (simp add: w window_take_drop)
qed


text \<open>
  C10. \<^verbatim>\<open>chunk_text\<close> returns for every text when \<open>overlap < chunk_size\<close>, because the start
  index then grows by a positive step; when \<open>chunk_size \<le> overlap\<close> the step is not positive
  and the loop never returns on any non-empty text.
\<close>

theorem chunk_text_total_iff:
  "(overlap < chunk_size \<longrightarrow> (\<exists>chunks. chunk_text text chunk_size overlap = Some chunks)) \<and>
   (chunk_size \<le> overlap \<and> text \<noteq> [] \<longrightarrow> chunk_text text chunk_size overlap = None)"
proof (intro conjI impI)
  assume "overlap < chunk_size"
  then show "\<exists>chunks. chunk_text text chunk_size overlap = Some chunks"
    by (simp add: chunk_text_kept_windows)
next
  assume "chunk_size \<le> overlap \<and> text \<noteq> []"
  then show "chunk_text text chunk_size overlap = None"
    by (simp add: chunk_text_def chunk_loop_diverges)
qed

theorem chunk_text_total_iff_witness:
  "((0::int) < 3 \<and> (\<exists>chunks. chunk_text ''ab cd'' 3 0 = Some chunks)) \<and>
   ((3::int) \<le> 3 \<and> ''a'' \<noteq> [] \<and> chunk_text ''a'' 3 3 = None)"
  using chunk_text_total_iff [of 0 3 "''ab cd''"] chunk_text_total_iff [of 3 3 "''a''"]
  by simp

text \<open>
  C5, as amended. For \<open>0 \<le> overlap < chunk_size\<close> the windows, before stripping, reassemble
  to the text; the chunks returned reassemble to the text whenever no window begins or ends
  with whitespace, since stripping then changes nothing and no window is dropped.
\<close>

theorem chunk_text_roundtrip:
  assumes "0 \<le> overlap" and "overlap < chunk_size"
  shows "reassemble overlap (windows text chunk_size overlap) = text \<and>
    ((\<forall>w \<in> set (windows text chunk_size overlap). strip w = w) \<longrightarrow>
       (\<exists>chunks. chunk_text text chunk_size overlap = Some chunks \<and>
          reassemble overlap chunks = text))"
proof (intro conjI impI)
  show r: "reassemble overlap (windows text chunk_size overlap) = text"
    by (rule reassemble_windows [OF assms])
  assume inv: "\<forall>w \<in> set (windows text chunk_size overlap). strip w = w"
  have "filter (\<lambda>w. strip w \<noteq> []) (windows text chunk_size overlap) = windows text chunk_size overlap"
    using inv windows_nonempty [OF assms] by (simp add: filter_id_conv)
  moreover have "map strip (windows text chunk_size overlap) = windows text chunk_size overlap"
    using inv by (simp add: map_idI)
  ultimately have "kept (windows text chunk_size overlap) = windows text chunk_size overlap"
    by (simp add: kept_def)
  with r show "\<exists>chunks. chunk_text text chunk_size overlap = Some chunks \<and>
      reassemble overlap chunks = text"
    by (simp add: chunk_text_kept_windows [OF assms(2)])
qed

theorem chunk_text_roundtrip_witness:
  "(0::int) \<le> 2 \<and> (2::int) < 5 \<and>
   windows ''hello world'' 5 2 = [''hello'', ''lo wo'', ''world'', ''ld''] \<and>
   map strip [''hello'', ''lo wo'', ''world'', ''ld''] = [''hello'', ''lo wo'', ''world'', ''ld''] \<and>
   reassemble 2 (windows ''hello world'' 5 2) = ''hello world'' \<and>
   (\<exists>chunks. chunk_text ''hello world'' 5 2 = Some chunks \<and>
      reassemble 2 chunks = ''hello world'')"
proof -
  have w: "windows ''hello world'' 5 2 = [''hello'', ''lo wo'', ''world'', ''ld'']"
    by code_simp
  have m: "map strip [''hello'', ''lo wo'', ''world'', ''ld''] = [''hello'', ''lo wo'', ''world'', ''ld'']"
    by code_simp
  have h: "\<forall>w \<in> set (windows ''hello world'' 5 2). strip w = w"
    using m by (simp add: w)
  show ?thesis
    using h w m chunk_text_roundtrip [of 2 5 "''hello world''"] by simp
qed

text \<open>
  C5 as stated fails: a space at the edge of a window is stripped and cannot be recovered,
  although no window was dropped.
\<close>

theorem chunk_text_roundtrip_counterexample:
  "chunk_text ''ab cd'' 3 0 = Some [''ab'', ''cd''] \<and>
   length (windows ''ab cd'' 3 0) = 2 \<and>
   reassemble 0 [''ab'', ''cd''] \<noteq> ''ab cd''"
  by code_simp

text \<open>
  C6, as amended. For \<open>overlap < chunk_size\<close> the result is, in order, the windows at the
  starts \<open>0, step, 2 * step, \<dots>\<close> with leading and trailing whitespace stripped, and a window
  is left out exactly when it is empty after stripping; there is no minimum length.
\<close>

theorem chunk_text_stepping:
  assumes "overlap < chunk_size"
  shows "chunk_text text chunk_size overlap =
    Some (map strip (filter (\<lambda>w. strip w \<noteq> []) (windows text chunk_size overlap)))"
  using chunk_text_kept_windows [OF assms] by (simp add: kept_def)

theorem chunk_text_stepping_witness:
  "(0::int) < 5 \<and> chunk_text ''hi '' 5 0 =
     Some (map strip (filter (\<lambda>w. strip w \<noteq> []) (windows ''hi '' 5 0)))"
  using chunk_text_stepping [of 0 5 "''hi ''"] by simp

text \<open>
  C6 as stated fails: the window \<open>''hi ''\<close> is emitted stripped, neither as it is nor left
  out for being shorter than ten characters.
\<close>

theorem chunk_text_stepping_counterexample:
  "chunk_text ''hi '' 5 0 = Some [''hi''] \<and>
   chunk_spec 10 ''hi '' 5 0 = [] \<and>
   chunk_spec 0 ''hi '' 5 0 = [''hi '']"
  by code_simp

section \<open>Properties of retrieval\<close>

lemma py_slice_from_0:
  "py_slice xs 0 k = take (nat (slice_bound (int (length xs)) k)) xs"
  by (simp add: py_slice_def slice_bound_def Let_def)

lemma set_py_slice: "set (py_slice xs i j) \<subseteq> set xs"
proof -
  have "set (py_slice xs i j) \<subseteq> set (drop (nat (slice_bound (int (length xs)) i)) xs)"
    unfolding py_slice_def Let_def by (rule set_take_subset)
  also have "\<dots> \<subseteq> set xs" by (rule set_drop_subset)
  finally show ?thesis .
qed

lemma qdrant_search_hit:
  assumes "qdrant_search similarity (Collection points) v limit must = Inr hits"
    and "h \<in> set hits"
  shows "\<exists>p \<in> set points. list_all (satisfies (point_payload p)) must \<and>
           hit_id h = point_id p \<and> hit_payload h = point_payload p"
proof -
  from assms have "h \<in> set (take limit (sort_key (\<lambda>h. - hit_score h)
      (map (\<lambda>p. \<lparr>hit_id = point_id p, hit_score = similarity v (vector p),
                 hit_payload = point_payload p\<rparr>)
        (filter (\<lambda>p. list_all (satisfies (point_payload p)) must) points))))"
    by (auto simp: qdrant_search_def)
  then have "h \<in> set (map (\<lambda>p. \<lparr>hit_id = point_id p, hit_score = similarity v (vector p),
                 hit_payload = point_payload p\<rparr>)
        (filter (\<lambda>p. list_all (satisfies (point_payload p)) must) points))"
    using set_take_subset [of limit] by fastforce
  then show ?thesis by auto
qed

lemma search_qdrant_owned:
  assumes "search_qdrant embed_text similarity (Collection points) query tenant top_k = Inr chunks"
    and "c \<in> set chunks"
  shows "owned_by tenant points c"
proof -
  from assms(1) obtain v hits where
    hits: "qdrant_search similarity (Collection points) v top_k
        [MatchValue ''tenant_id'' tenant, MatchAny ''source_type'' [''document'', ''website'']] = Inr hits"
    and chunks: "chunks = map (\<lambda>h. \<lparr>content = content (hit_payload h),
                               source_type = source_type (hit_payload h),
                               metadata = metadata (hit_payload h),
                               score = hit_score h,
                               chunk_id = hit_id h\<rparr>) hits"
    by (auto simp: search_qdrant_def split: sum.splits)
  from assms(2) chunks obtain h where h: "h \<in> set hits"
    and c: "chunk_id c = hit_id h" "content c = content (hit_payload h)"
    by auto
  from qdrant_search_hit [OF hits h] c show ?thesis
    by (auto simp: owned_by_def payload_get_def)
qed

lemma search_knowledge_stored:
  assumes "search_knowledge embed_text similarity (Collection points) query tenant top_k = Inr chunks"
    and "c \<in> set chunks"
  shows "stored_for tenant points c"
proof -
  from assms(1) obtain v hits where
    hits: "qdrant_search similarity (Collection points) v top_k
        [MatchValue ''tenant_id'' tenant] = Inr hits"
    and chunks: "chunks = map (\<lambda>h. \<lparr>content = content (hit_payload h),
                               source_type = source_type (hit_payload h),
                               metadata = metadata (hit_payload h),
                               score = hit_score h\<rparr>) hits"
    by (auto simp: search_knowledge_def split: sum.splits)
  from assms(2) chunks obtain h where h: "h \<in> set hits"
    and c: "content c = content (hit_payload h)" "source_type c = source_type (hit_payload h)"
      "metadata c = metadata (hit_payload h)"
    by auto
  from qdrant_search_hit [OF hits h] c show ?thesis
    by (auto simp: stored_for_def payload_get_def)
qed

lemma search_each_owned:
  assumes "search_each embed_text similarity (Collection points) tenant queries acc = Inr all_chunks"
    and "\<forall>c \<in> set acc. owned_by tenant points c"
  shows "\<forall>c \<in> set all_chunks. owned_by tenant points c"
  using assms
proof (induction queries arbitrary: acc)
  case Nil
  then show ?case by simp
next
  case (Cons query queries)
  from Cons.prems(1) obtain chunks where
    s: "search_qdrant embed_text similarity (Collection points) query tenant 5 = Inr chunks"
    and r: "search_each embed_text similarity (Collection points) tenant queries (acc @ chunks) = Inr all_chunks"
    by (auto split: sum.splits)
  have "\<forall>c \<in> set (acc @ chunks). owned_by tenant points c"
    using Cons.prems(2) search_qdrant_owned [OF s] by auto
  from Cons.IH [OF r this] show ?case .
qed

lemma snd_foldl_update:
  "snd ` set (foldl (\<lambda>d chunk. AList.update (chunk_id chunk) chunk d) d all_chunks)
     \<subseteq> snd ` set d \<union> set all_chunks"
proof (induction all_chunks arbitrary: d)
  case Nil
  show ?case by simp
next
  case (Cons a all_chunks)
  have "snd ` set (AList.update (chunk_id a) a d) \<subseteq> snd ` set d \<union> {a}"
    by (induction d) auto
  with Cons [of "AList.update (chunk_id a) a d"] show ?case by auto
qed

lemma set_merge_chunks: "set (merge_chunks all_chunks) \<subseteq> set all_chunks"
proof -
  have "set (merge_chunks all_chunks) \<subseteq> snd ` set (unique_chunks all_chunks)"
    using set_py_slice [of "sort_key (\<lambda>x. - score x) (map snd (unique_chunks all_chunks))" 0 12]
    by (simp add: merge_chunks_def)
  also have "\<dots> \<subseteq> set all_chunks"
    using snd_foldl_update [of "[]" all_chunks] by (simp add: unique_chunks_def)
  finally show ?thesis .
qed

lemma multi_query_search_owned:
  assumes "multi_query_search embed_text similarity (Collection points) queries tenant = Inr merged"
    and "c \<in> set merged"
  shows "owned_by tenant points c"
proof -
  from assms(1) obtain all_chunks where
    a: "search_each embed_text similarity (Collection points) tenant queries [] = Inr all_chunks"
    and m: "merged = merge_chunks all_chunks"
    by (auto simp: multi_query_search_def split: sum.splits)
  from search_each_owned [OF a] have "\<forall>c \<in> set all_chunks. owned_by tenant points c" by simp
  with assms(2) m set_merge_chunks [of all_chunks] show ?thesis by auto
qed

lemma owned_by_unique:
  assumes "owned_by tenant points c" and "distinct (map point_id points)"
    and "p \<in> set points" and "point_id p = chunk_id c"
  shows "tenant_id (point_payload p) = tenant"
proof -
  from assms(1) obtain q where q: "q \<in> set points" "point_id q = chunk_id c"
    "tenant_id (point_payload q) = tenant"
    by (auto simp: owned_by_def)
  from assms(2) q(1,2) assms(3,4) have "p = q"
    by (simp add: distinct_map inj_on_def)
  with q(3) show ?thesis by simp
qed

lemma map_of_foldl_update:
  "map_of (foldl (\<lambda>d chunk. AList.update (chunk_id chunk) chunk d) d all_chunks) k =
     (case filter (\<lambda>x. chunk_id x = k) all_chunks of
        [] \<Rightarrow> map_of d k
      | x # xs \<Rightarrow> Some (last (x # xs)))"
proof (induction all_chunks arbitrary: d)
  case Nil
  show ?case by simp
next
  case (Cons a all_chunks)
  show ?case
    using Cons [of "AList.update (chunk_id a) a d"]
    by (auto simp: update_conv' split: list.splits)
qed

lemma distinct_foldl_update:
  "distinct (map fst d) \<Longrightarrow>
     distinct (map fst (foldl (\<lambda>d chunk. AList.update (chunk_id chunk) chunk d) d all_chunks))"
  by (induction all_chunks arbitrary: d) (simp_all add: distinct_update)

lemma unique_chunks_last:
  assumes "c \<in> snd ` set (unique_chunks all_chunks)"
  shows "c = last (filter (\<lambda>x. chunk_id x = chunk_id c) all_chunks)"
proof -
  from assms obtain k where kc: "(k, c) \<in> set (unique_chunks all_chunks)" by auto
  have d: "distinct (map fst (unique_chunks all_chunks))"
    unfolding unique_chunks_def by (rule distinct_foldl_update) simp
  from kc d have m: "map_of (unique_chunks all_chunks) k = Some c" by simp
  have f: "filter (\<lambda>x. chunk_id x = k) all_chunks \<noteq> []"
    using m map_of_foldl_update [of "[]" all_chunks k]
    by (auto simp: unique_chunks_def split: list.splits)
  then have l: "c = last (filter (\<lambda>x. chunk_id x = k) all_chunks)"
    using m map_of_foldl_update [of "[]" all_chunks k]
    by (auto simp: unique_chunks_def split: list.splits)
  from f have "last (filter (\<lambda>x. chunk_id x = k) all_chunks) \<in> set (filter (\<lambda>x. chunk_id x = k) all_chunks)"
    by (rule last_in_set)
  with l have "chunk_id c = k" by simp
  with l show ?thesis by simp
qed

lemma set_update_subset: "set (AList.update k v d) \<subseteq> insert (k, v) (set d)"
  by (induction d) auto

lemma keys_foldl_update:
  "\<forall>(k, c) \<in> set d. chunk_id c = k \<Longrightarrow>
     \<forall>(k, c) \<in> set (foldl (\<lambda>d chunk. AList.update (chunk_id chunk) chunk d) d all_chunks).
        chunk_id c = k"
proof (induction all_chunks arbitrary: d)
  case Nil
  then show ?case by simp
next
  case (Cons a all_chunks)
  have "\<forall>(k, c) \<in> set (AList.update (chunk_id a) a d). chunk_id c = k"
    using Cons.prems set_update_subset [of "chunk_id a" a d] by auto
  from Cons.IH [OF this] show ?case by simp
qed

lemma unique_chunks_ids:
  "map chunk_id (map snd (unique_chunks all_chunks)) = map fst (unique_chunks all_chunks)"
  using keys_foldl_update [of "[]" all_chunks]
  by (auto simp: unique_chunks_def)

lemma distinct_map_sort_key:
  "distinct (map f (sort_key g xs)) = distinct (map f xs)"
proof -
  have "mset (map f (sort_key g xs)) = mset (map f xs)" by simp
  then show ?thesis by (rule mset_eq_imp_distinct_iff)
qed

lemma distinct_map_py_slice:
  "distinct (map f xs) \<Longrightarrow> distinct (map f (py_slice xs i j))"
  unfolding py_slice_def Let_def take_map [symmetric] drop_map [symmetric]
  by (intro distinct_take distinct_drop)

lemma distinct_merge_chunks: "distinct (map chunk_id (merge_chunks all_chunks))"
proof -
  have "distinct (map fst (unique_chunks all_chunks))"
    unfolding unique_chunks_def by (rule distinct_foldl_update) simp
  then have "distinct (map chunk_id (map snd (unique_chunks all_chunks)))"
    by (simp only: unique_chunks_ids)
  then have "distinct (map chunk_id (sort_key (\<lambda>x. - score x) (map snd (unique_chunks all_chunks))))"
    by (simp only: distinct_map_sort_key)
  then show ?thesis
    unfolding merge_chunks_def Let_def by (rule distinct_map_py_slice)
qed

lemma merge_chunks_last:
  assumes "c \<in> set (merge_chunks all_chunks)"
  shows "c = last (filter (\<lambda>x. chunk_id x = chunk_id c) all_chunks)"
proof -
  have "set (merge_chunks all_chunks) \<subseteq> snd ` set (unique_chunks all_chunks)"
    using set_py_slice [of "sort_key (\<lambda>x. - score x) (map snd (unique_chunks all_chunks))" 0 12]
    by (simp add: merge_chunks_def)
  with assms show ?thesis by (auto intro: unique_chunks_last)
qed

lemma sorted_desc: "sorted_wrt (\<lambda>a b. score b \<le> score a) (sort_key (\<lambda>x. - score x) chunks)"
proof -
  have "sorted (map (\<lambda>x. - score x) (sort_key (\<lambda>x. - score x) chunks))"
    by (rule sorted_sort_key)
  then show ?thesis by (simp add: sorted_map)
qed

lemma rerank_prefix:
  "\<exists>rest. sort_key (\<lambda>x. - score x) chunks = rerank_by_score chunks top_k @ rest"
  unfolding rerank_by_score_def py_slice_from_0
  by (metis append_take_drop_id)

lemma rerank_length: "0 \<le> top_k \<Longrightarrow> length (rerank_by_score chunks top_k) \<le> nat top_k"
  by (simp add: rerank_by_score_def py_slice_from_0 slice_bound_def)

lemma rerank_sorted: "sorted_wrt (\<lambda>a b. score b \<le> score a) (rerank_by_score chunks top_k)"
  unfolding rerank_by_score_def py_slice_from_0
  using sorted_desc [of chunks] by (rule sorted_wrt_take)

lemma rerank_order:
  assumes "i < length (rerank_by_score chunks top_k)" "j < length (rerank_by_score chunks top_k)"
    and "score (rerank_by_score chunks top_k ! j) < score (rerank_by_score chunks top_k ! i)"
  shows "i < j"
proof (rule ccontr)
  assume "\<not> i < j"
  then consider "i = j" | "j < i" by arith
  then show False
  proof cases
    case 1
    with assms(3) show False by simp
  next
    case 2
    from rerank_sorted [of chunks top_k] 2 assms(1)
    have "score (rerank_by_score chunks top_k ! i) \<le> score (rerank_by_score chunks top_k ! j)"
      by (simp add: sorted_wrt_iff_nth_less)
    with assms(3) show False by simp
  qed
qed

text \<open>
  C1. Whatever the index holds, every candidate returned by \<open>search_qdrant\<close> or by
  \<open>multi_query_search\<close> for a tenant carries the id and content of a point stored for that
  tenant, and when the ids of the index are distinct no point of another tenant has that
  id; every chunk returned by \<open>search_knowledge\<close>, which returns no id, has the content,
  source type and metadata of a point stored for that tenant.
\<close>

theorem tenant_isolation:
  "(search_qdrant embed_text similarity (Collection points) query tenant top_k = Inr chunks \<and>
      c \<in> set chunks \<longrightarrow>
        owned_by tenant points c \<and>
        (distinct (map point_id points) \<longrightarrow>
           (\<forall>p \<in> set points. point_id p = chunk_id c \<longrightarrow> tenant_id (point_payload p) = tenant))) \<and>
   (multi_query_search embed_text similarity (Collection points) queries tenant = Inr merged \<and>
      m \<in> set merged \<longrightarrow>
        owned_by tenant points m \<and>
        (distinct (map point_id points) \<longrightarrow>
           (\<forall>p \<in> set points. point_id p = chunk_id m \<longrightarrow> tenant_id (point_payload p) = tenant))) \<and>
   (search_knowledge embed_text similarity (Collection points) query tenant top_k = Inr found \<and>
      k \<in> set found \<longrightarrow> stored_for tenant points k)"
proof (intro conjI impI ballI)
  assume a: "search_qdrant embed_text similarity (Collection points) query tenant top_k = Inr chunks \<and>
      c \<in> set chunks"
  then show o: "owned_by tenant points c"
    using search_qdrant_owned by blast
  fix p
  assume "distinct (map point_id points)" "p \<in> set points" "point_id p = chunk_id c"
  with o show "tenant_id (point_payload p) = tenant"
    by (rule owned_by_unique)
next
  assume a: "multi_query_search embed_text similarity (Collection points) queries tenant = Inr merged \<and>
      m \<in> set merged"
  then show o: "owned_by tenant points m"
    using multi_query_search_owned by blast
  fix p
  assume "distinct (map point_id points)" "p \<in> set points" "point_id p = chunk_id m"
  with o show "tenant_id (point_payload p) = tenant"
    by (rule owned_by_unique)
next
  assume "search_knowledge embed_text similarity (Collection points) query tenant top_k = Inr found \<and>
      k \<in> set found"
  then show "stored_for tenant points k"
    using search_knowledge_stored by blast
qed

theorem tenant_isolation_witness:
  "search_qdrant unit_embedding dot
      (Collection [faq_point ''a'' ''t1'' (1/2), faq_point ''b'' ''t2'' 1, faq_point ''c'' ''t1'' (3/4)])
      ''how long does shipping take'' ''t1'' 5
     = Inr [faq_hit ''c'' (3/4), faq_hit ''a'' (1/2)] \<and>
   owned_by ''t1'' [faq_point ''a'' ''t1'' (1/2), faq_point ''b'' ''t2'' 1, faq_point ''c'' ''t1'' (3/4)]
     (faq_hit ''c'' (3/4)) \<and>
   distinct (map point_id [faq_point ''a'' ''t1'' (1/2), faq_point ''b'' ''t2'' 1, faq_point ''c'' ''t1'' (3/4)]) \<and>
   point_id (faq_point ''c'' ''t1'' (3/4)) = chunk_id (faq_hit ''c'' (3/4)) \<and>
   tenant_id (point_payload (faq_point ''c'' ''t1'' (3/4))) = ''t1'' \<and>
   multi_query_search unit_embedding dot
      (Collection [faq_point ''a'' ''t1'' (1/2), faq_point ''b'' ''t2'' 1, faq_point ''c'' ''t1'' (3/4)])
      [''how long does shipping take'', ''delivery time''] ''t2''
     = Inr [faq_hit ''b'' 1] \<and>
   owned_by ''t2'' [faq_point ''a'' ''t1'' (1/2), faq_point ''b'' ''t2'' 1, faq_point ''c'' ''t1'' (3/4)]
     (faq_hit ''b'' 1) \<and>
   point_id (faq_point ''b'' ''t2'' 1) = chunk_id (faq_hit ''b'' 1) \<and>
   tenant_id (point_payload (faq_point ''b'' ''t2'' 1)) = ''t2'' \<and>
   search_knowledge unit_embedding dot
      (Collection [faq_point ''a'' ''t1'' (1/2), faq_point ''b'' ''t2'' 1, faq_point ''c'' ''t1'' (3/4)])
      ''how long does shipping take'' ''t2'' 3
     = Inr [chunk.truncate (faq_hit ''b'' 1)] \<and>
   stored_for ''t2'' [faq_point ''a'' ''t1'' (1/2), faq_point ''b'' ''t2'' 1, faq_point ''c'' ''t1'' (3/4)]
     (chunk.truncate (faq_hit ''b'' 1))"
  (is "?s1 \<and> ?o1 \<and> ?d \<and> ?i1 \<and> ?t1 \<and> ?s2 \<and> ?o2 \<and> ?i2 \<and> ?t2 \<and> ?s3 \<and> ?o3")
proof -
  let ?pts = "[faq_point ''a'' ''t1'' (1/2), faq_point ''b'' ''t2'' 1, faq_point ''c'' ''t1'' (3/4)]"
  have s1: ?s1
    by (simp add: search_qdrant_def unit_embedding_def dot_def qdrant_search_def faq_point_def
        payload_get_def faq_hit_def)
  have s2: ?s2
    by (simp add: multi_query_search_def merge_chunks_def unique_chunks_def py_slice_def
        slice_bound_def search_qdrant_def unit_embedding_def dot_def qdrant_search_def
        faq_point_def payload_get_def faq_hit_def)
  have s3: ?s3
    by (simp add: search_knowledge_def unit_embedding_def dot_def qdrant_search_def faq_point_def
        payload_get_def faq_hit_def chunk.truncate_def)
  have d: ?d by (simp add: faq_point_def)
  have i1: ?i1 by (simp add: faq_point_def faq_hit_def)
  have i2: ?i2 by (simp add: faq_point_def faq_hit_def)
  note t = tenant_isolation [where embed_text = unit_embedding and similarity = dot
      and points = ?pts]
  have p1: "faq_point ''c'' ''t1'' (3/4) \<in> set ?pts" by simp
  have p2: "faq_point ''b'' ''t2'' 1 \<in> set ?pts" by simp
  have "?o1 \<and> (distinct (map point_id ?pts) \<longrightarrow>
           (\<forall>p \<in> set ?pts. point_id p = chunk_id (faq_hit ''c'' (3/4)) \<longrightarrow>
              tenant_id (point_payload p) = ''t1''))"
    by (rule mp [OF conjunct1 [OF t]], rule conjI, rule s1, simp)
  with d i1 p1 have o1: "?o1 \<and> ?t1" by blast
  have "?o2 \<and> (distinct (map point_id ?pts) \<longrightarrow>
           (\<forall>p \<in> set ?pts. point_id p = chunk_id (faq_hit ''b'' 1) \<longrightarrow>
              tenant_id (point_payload p) = ''t2''))"
    by (rule mp [OF conjunct1 [OF conjunct2 [OF t]]], rule conjI, rule s2, simp)
  with d i2 p2 have o2: "?o2 \<and> ?t2" by blast
  have o3: ?o3
    by (rule mp [OF conjunct2 [OF conjunct2 [OF t]]], rule conjI, rule s3, simp)
  from s1 s2 s3 d i1 i2 o1 o2 o3 show ?thesis by blast
qed

text \<open>
  C2, as amended. After the merge no chunk id occurs twice, and the chunk kept for an id is
  the last one carrying that id in the concatenated results of the variants, so its score
  is the score found by the last variant that returned it.
\<close>

theorem merge_keeps_last_occurrence:
  "distinct (map chunk_id (merge_chunks (concat results))) \<and>
   (\<forall>c \<in> set (merge_chunks (concat results)).
      c = last (filter (\<lambda>x. chunk_id x = chunk_id c) (concat results)))"
  using distinct_merge_chunks merge_chunks_last by blast

theorem merge_keeps_last_occurrence_witness:
  "merge_chunks (concat [[faq_hit ''a'' (9/10), faq_hit ''b'' (1/5)], [faq_hit ''a'' (1/2)]])
     = [faq_hit ''a'' (1/2), faq_hit ''b'' (1/5)] \<and>
   faq_hit ''a'' (1/2) =
     last (filter (\<lambda>x. chunk_id x = chunk_id (faq_hit ''a'' (1/2)))
       (concat [[faq_hit ''a'' (9/10), faq_hit ''b'' (1/5)], [faq_hit ''a'' (1/2)]]))"
proof -
  have m: "merge_chunks (concat [[faq_hit ''a'' (9/10), faq_hit ''b'' (1/5)], [faq_hit ''a'' (1/2)]])
     = [faq_hit ''a'' (1/2), faq_hit ''b'' (1/5)]"
    by (simp add: merge_chunks_def unique_chunks_def py_slice_def slice_bound_def faq_hit_def)
  have "faq_hit ''a'' (1/2) \<in> set (merge_chunks
      (concat [[faq_hit ''a'' (9/10), faq_hit ''b'' (1/5)], [faq_hit ''a'' (1/2)]]))"
    by (simp only: m) simp
  with merge_keeps_last_occurrence
    [of "[[faq_hit ''a'' (9/10), faq_hit ''b'' (1/5)], [faq_hit ''a'' (1/2)]]"] m
  show ?thesis by blast
qed

text \<open>
  C2 as stated fails: when the first variant scores a chunk 0.9 and the second scores it
  0.5, the merge keeps 0.5, not the maximum.
\<close>

theorem merge_keeps_max_counterexample:
  "map score (merge_chunks (concat [[faq_hit ''a'' (9/10)], [faq_hit ''a'' (1/2)]])) = [1/2] \<and>
   Max (set (map score (filter (\<lambda>x. chunk_id x = ''a'')
     (concat [[faq_hit ''a'' (9/10)], [faq_hit ''a'' (1/2)]])))) = 9/10"
  by (simp add: merge_chunks_def unique_chunks_def py_slice_def slice_bound_def faq_hit_def)

text \<open>
  C9. The candidates sorted by score are a permutation of the input in descending order of
  score; \<open>rerank_by_score\<close> returns a prefix of them, of at most \<open>top_k\<close> elements for a count
  \<open>top_k \<ge> 0\<close>, and of two candidates in the output the one with the strictly higher score
  comes first.
\<close>

theorem rerank_by_score_descending:
  "mset (sort_key (\<lambda>x. - score x) chunks) = mset chunks \<and>
   sorted_wrt (\<lambda>a b. score b \<le> score a) (sort_key (\<lambda>x. - score x) chunks) \<and>
   (\<exists>rest. sort_key (\<lambda>x. - score x) chunks = rerank_by_score chunks top_k @ rest) \<and>
   (0 \<le> top_k \<longrightarrow> length (rerank_by_score chunks top_k) \<le> nat top_k) \<and>
   (\<forall>i j. i < length (rerank_by_score chunks top_k) \<and> j < length (rerank_by_score chunks top_k) \<and>
      score (rerank_by_score chunks top_k ! j) < score (rerank_by_score chunks top_k ! i) \<longrightarrow> i < j)"
  using sorted_desc [of chunks] rerank_prefix [of chunks top_k] rerank_length [of top_k chunks]
    rerank_order [of _ chunks top_k]
  by (intro conjI allI impI) (simp, blast+)

theorem rerank_by_score_descending_witness:
  "(0::int) \<le> 2 \<and>
   rerank_by_score [scored (1/5), scored (9/10), scored (1/2)] 2 = [scored (9/10), scored (1/2)] \<and>
   length (rerank_by_score [scored (1/5), scored (9/10), scored (1/2)] 2) \<le> nat 2 \<and>
   (0::nat) < length (rerank_by_score [scored (1/5), scored (9/10), scored (1/2)] 2) \<and>
   (1::nat) < length (rerank_by_score [scored (1/5), scored (9/10), scored (1/2)] 2) \<and>
   score (rerank_by_score [scored (1/5), scored (9/10), scored (1/2)] 2 ! 1)
     < score (rerank_by_score [scored (1/5), scored (9/10), scored (1/2)] 2 ! 0) \<and>
   (0::nat) < 1"
proof -
  have r: "rerank_by_score [scored (1/5), scored (9/10), scored (1/2)] 2 = [scored (9/10), scored (1/2)]"
    by (simp add: rerank_by_score_def py_slice_def slice_bound_def scored_def)
  have s: "score (rerank_by_score [scored (1/5), scored (9/10), scored (1/2)] 2 ! 1)
     < score (rerank_by_score [scored (1/5), scored (9/10), scored (1/2)] 2 ! 0)"
    by (simp only: r) (simp add: scored_def)
  from rerank_by_score_descending [of "[scored (1/5), scored (9/10), scored (1/2)]" 2] r s
  show ?thesis by simp
qed

section \<open>Properties of the context formatter\<close>

lemma upt_0_Suc: "[0 ..< Suc n] = 0 # map Suc [0 ..< n]"
  by (simp add: upt_conv_Cons map_Suc_upt del: upt_Suc)

lemma format_parts_blocks:
  "format_parts i chunks context_parts =
     context_parts @ map (\<lambda>k. source_block (i + k) (source_label (chunks ! k)) (content (chunks ! k)))
                       [0 ..< length chunks]"
proof (induction chunks arbitrary: i context_parts)
  case Nil
  show ?case by simp
next
  case (Cons chunk chunks)
  have "map (\<lambda>k. source_block (i + k) (source_label ((chunk # chunks) ! k)) (content ((chunk # chunks) ! k)))
          [0 ..< length (chunk # chunks)] =
        source_block i (source_label chunk) (content chunk) #
        map (\<lambda>k. source_block (i + 1 + k) (source_label (chunks ! k)) (content (chunks ! k)))
          [0 ..< length chunks]"
    by (simp only: length_Cons upt_0_Suc) (simp add: comp_def)
  then show ?case
    by (simp add: Cons.IH Let_def source_block_def source_label_def)
qed

lemma format_rag_context_blocks:
  "format_rag_context chunks =
     join separator (map (\<lambda>k. source_block (k + 1) (source_label (chunks ! k)) (content (chunks ! k)))
                       [0 ..< length chunks])"
  using format_parts_blocks [of 1 chunks "[]"]
  by (cases chunks) (simp_all add: format_rag_context_def add.commute)

lemma strip_template:
  assumes "\<not> isspace c"
  shows "strip ([newline] @ (c # b) @ [newline] @ ''        '') = rstrip (c # b)"
proof -
  have nl: "isspace newline" by (simp add: isspace_def newline_def)
  have sp: "isspace CHR '' ''" by (simp add: isspace_def)
  have "lstrip ([newline] @ (c # b) @ [newline] @ ''        '') = (c # b) @ [newline] @ ''        ''"
    using assms nl by (simp add: lstrip_def)
  moreover have "rstrip ((c # b) @ [newline] @ ''        '') = rstrip (c # b)"
    using nl sp by (simp add: rstrip_def)
  ultimately show ?thesis by (simp add: strip_def)
qed

lemma pipeline_block:
  "strip ([newline] @ ''Source '' @ str_nat i @ '': '' @ src @ [newline] @ text @ [newline] @ ''        '')
     = rstrip (source_block i src text)"
proof -
  have s: "\<not> isspace CHR ''S''" by (simp add: isspace_def)
  have "source_block i src text = CHR ''S'' # (''ource '' @ str_nat i @ '': '' @ src @ [newline] @ text)"
    by (simp add: source_block_def)
  with strip_template [OF s, of "''ource '' @ str_nat i @ '': '' @ src @ [newline] @ text"]
  show ?thesis by simp
qed

lemma pipeline_parts_blocks:
  "pipeline_parts i chunks context_parts =
     context_parts @ map (\<lambda>k. rstrip (source_block (i + k) (pipeline_label (chunks ! k)) (content (chunks ! k))))
                       [0 ..< length chunks]"
proof (induction chunks arbitrary: i context_parts)
  case Nil
  show ?case by simp
next
  case (Cons chunk chunks)
  have "map (\<lambda>k. rstrip (source_block (i + k) (pipeline_label ((chunk # chunks) ! k)) (content ((chunk # chunks) ! k))))
          [0 ..< length (chunk # chunks)] =
        rstrip (source_block i (pipeline_label chunk) (content chunk)) #
        map (\<lambda>k. rstrip (source_block (i + 1 + k) (pipeline_label (chunks ! k)) (content (chunks ! k))))
          [0 ..< length chunks]"
    by (simp only: length_Cons upt_0_Suc) (simp add: comp_def)
  moreover have "strip ([newline] @ ''Source '' @ str_nat i @ '': '' @
        py_str (py_or (map_of (metadata chunk) ''source_url'') (map_of (metadata chunk) ''filename'')) @
        [newline] @ content chunk @ [newline] @ ''        '')
      = rstrip (source_block i (pipeline_label chunk) (content chunk))"
    unfolding pipeline_label_def by (rule pipeline_block)
  ultimately show ?case
    by (simp only: pipeline_parts.simps Let_def Cons.IH) simp
qed

text \<open>
  C8, as amended. Both formatters return the empty string for no candidates and otherwise
  one block per candidate, numbered from 1 in the order of the input and joined by the
  separator. The roadmap's block is \<open>Source N: <source>\<close>, a newline and the text, as it is;
  the block of \<^verbatim>\<open>rag_pipeline.md\<close> is that block without its trailing whitespace.
\<close>

theorem format_rag_context_contract:
  "format_rag_context [] = [] \<and>
   format_rag_context_pipeline [] = [] \<and>
   format_rag_context chunks =
     join separator (map (\<lambda>k. source_block (k + 1) (source_label (chunks ! k)) (content (chunks ! k)))
                       [0 ..< length chunks]) \<and>
   format_rag_context_pipeline chunks =
     join separator (map (\<lambda>k. rstrip (source_block (k + 1) (pipeline_label (chunks ! k)) (content (chunks ! k))))
                       [0 ..< length chunks])"
proof (intro conjI)
  show "format_rag_context [] = []" by (simp add: format_rag_context_def)
  show "format_rag_context_pipeline [] = []" by (simp add: format_rag_context_pipeline_def)
  show "format_rag_context chunks =
     join separator (map (\<lambda>k. source_block (k + 1) (source_label (chunks ! k)) (content (chunks ! k)))
                       [0 ..< length chunks])"
    by (rule format_rag_context_blocks)
  show "format_rag_context_pipeline chunks =
     join separator (map (\<lambda>k. rstrip (source_block (k + 1) (pipeline_label (chunks ! k)) (content (chunks ! k))))
                       [0 ..< length chunks])"
    using pipeline_parts_blocks [of 1 chunks "[]"]
    by (simp add: format_rag_context_pipeline_def add.commute)
qed

text \<open>
  C8 as stated fails for the formatter of \<^verbatim>\<open>rag_pipeline.md\<close>: the block of a candidate whose
  text ends with a space does not end with that text.
\<close>

theorem format_rag_context_counterexample:
  "format_rag_context_pipeline [page_chunk ''abc ''] = ''Source 1: u'' @ [newline] @ ''abc'' \<and>
   source_block 1 (pipeline_label (page_chunk ''abc '')) (content (page_chunk ''abc ''))
     = ''Source 1: u'' @ [newline] @ ''abc ''"
  by code_simp

section \<open>Properties of the calls to the language model\<close>

lemma select_accepted:
  "list_all (accepted_index (length chunks)) indices \<Longrightarrow>
     select chunks indices = Inr (map (\<lambda>v. chunks ! position (length chunks) v) indices)"
proof (induction indices)
  case Nil
  show ?case by simp
next
  case (Cons i indices)
  then have "accepted_index (length chunks) i" by simp
  then have "py_getitem chunks i = Inr (chunks ! position (length chunks) i)"
    by (cases i) (auto simp: Let_def)
  with Cons show ?case by simp
qed

lemma select_rejected:
  "\<not> list_all (accepted_index (length chunks)) indices \<Longrightarrow>
     select chunks indices = Inl IndexError \<or> select chunks indices = Inl TypeError"
proof (induction indices)
  case Nil
  then show ?case by simp
next
  case (Cons i indices)
  show ?case
  proof (cases "accepted_index (length chunks) i")
    case True
    then have "py_getitem chunks i = Inr (chunks ! position (length chunks) i)"
      by (cases i) (auto simp: Let_def)
    moreover from True Cons.prems have "\<not> list_all (accepted_index (length chunks)) indices"
      by simp
    ultimately show ?thesis using Cons.IH by auto
  next
    case False
    then have "py_getitem chunks i = Inl IndexError \<or> py_getitem chunks i = Inl TypeError"
      by (cases i) (auto simp: Let_def)
    then show ?thesis by auto
  qed
qed

text \<open>
  C3, as amended. \<open>generate_query_variants\<close> has no fallback. It raises the provider's error
  when the call fails, the decoder's error when the answer is no JSON text and
  \<^verbatim>\<open>TypeError\<close> when the answer decodes to something that is not a list; when the answer
  decodes to a list it returns the original query followed by the elements of the list.
\<close>

theorem generate_query_variants_raises:
  "(reply = Inl e \<longrightarrow> generate_query_variants loads reply original_query = Inl e) \<and>
   (reply = Inr answer \<and> loads answer = Inl e \<longrightarrow>
      generate_query_variants loads reply original_query = Inl e) \<and>
   (reply = Inr answer \<and> loads answer = Inr v \<and> \<not> is_array v \<longrightarrow>
      generate_query_variants loads reply original_query = Inl TypeError) \<and>
   (reply = Inr answer \<and> loads answer = Inr (JArray variants) \<longrightarrow>
      generate_query_variants loads reply original_query = Inr (JString original_query # variants))"
proof (intro conjI impI)
  assume "reply = Inr answer \<and> loads answer = Inr v \<and> \<not> is_array v"
  then show "generate_query_variants loads reply original_query = Inl TypeError"
    by (cases v) (simp_all add: generate_query_variants_def)
qed (simp_all add: generate_query_variants_def)

theorem generate_query_variants_raises_witness:
  "generate_query_variants sample_loads (Inl ProviderError) ''delivery'' = Inl ProviderError \<and>
   sample_loads ''Here are three variants'' = Inl JSONDecodeError \<and>
   generate_query_variants sample_loads (Inr ''Here are three variants'') ''delivery''
     = Inl JSONDecodeError \<and>
   sample_loads ''{}'' = Inr (JObject []) \<and> is_array (JObject []) = False \<and>
   generate_query_variants sample_loads (Inr ''{}'') ''delivery'' = Inl TypeError \<and>
   sample_loads (''['' @ [CHR 0x22] @ ''delivery time'' @ [CHR 0x22] @ '']'')
     = Inr (JArray [JString ''delivery time'']) \<and>
   generate_query_variants sample_loads
       (Inr (''['' @ [CHR 0x22] @ ''delivery time'' @ [CHR 0x22] @ '']'')) ''delivery''
     = Inr [JString ''delivery'', JString ''delivery time'']"
  (is "?a \<and> ?l2 \<and> ?b \<and> ?l3 \<and> ?n3 \<and> ?c \<and> ?l4 \<and> ?d")
proof -
  note t = generate_query_variants_raises [where loads = sample_loads and original_query = "''delivery''"]
  have l2: ?l2 by (simp add: sample_loads_def)
  have l3: ?l3 by (simp add: sample_loads_def)
  have l4: ?l4 by (simp add: sample_loads_def)
  have n3: ?n3 by simp
  have a: ?a
    by (rule mp [OF conjunct1 [OF t]]) (rule refl)
  have b: ?b
    by (rule mp [OF conjunct1 [OF conjunct2 [OF t]]]) (rule conjI, rule refl, rule l2)
  have c: ?c
    by (rule mp [OF conjunct1 [OF conjunct2 [OF conjunct2 [OF t]]]])
      (rule conjI, rule refl, rule conjI, rule l3, simp)
  have d: ?d
    by (rule mp [OF conjunct2 [OF conjunct2 [OF conjunct2 [OF t]]]])
      (rule conjI, rule refl, rule l4)
  from a b c d l2 l3 l4 n3 show ?thesis by blast
qed

text \<open>
  C3 as stated fails: a failing provider and an answer that is no JSON text both make
  \<open>generate_query_variants\<close> raise.
\<close>

theorem generate_query_variants_counterexample:
  "generate_query_variants sample_loads (Inl ProviderError) ''delivery'' = Inl ProviderError \<and>
   generate_query_variants sample_loads (Inr ''Here are three variants'') ''delivery''
     = Inl JSONDecodeError"
  by (simp add: generate_query_variants_def sample_loads_def)

text \<open>
  C4, as amended. \<open>rerank_with_llm\<close> validates nothing and has no fallback. It raises the
  provider's or the decoder's error; when the answer decodes to a list and each of its first
  \<open>top_k\<close> elements is an integer \<open>i\<close> with \<open>- n \<le> i < n\<close>, for \<open>n\<close> candidates, it returns the
  candidates at these positions in the order given, a negative index counting from the end
  and a repeated index repeating its candidate; otherwise it raises \<^verbatim>\<open>IndexError\<close> or
  \<^verbatim>\<open>TypeError\<close>.
\<close>

theorem rerank_with_llm_unvalidated:
  "(reply = Inl e \<longrightarrow> rerank_with_llm loads reply chunks top_k = Inl e) \<and>
   (reply = Inr answer \<and> loads answer = Inl e \<longrightarrow>
      rerank_with_llm loads reply chunks top_k = Inl e) \<and>
   (reply = Inr answer \<and> loads answer = Inr (JArray indices) \<and>
      list_all (accepted_index (length chunks)) (py_slice indices 0 top_k) \<longrightarrow>
      rerank_with_llm loads reply chunks top_k =
        Inr (map (\<lambda>v. chunks ! position (length chunks) v) (py_slice indices 0 top_k))) \<and>
   (reply = Inr answer \<and> loads answer = Inr (JArray indices) \<and>
      \<not> list_all (accepted_index (length chunks)) (py_slice indices 0 top_k) \<longrightarrow>
      rerank_with_llm loads reply chunks top_k = Inl IndexError \<or>
      rerank_with_llm loads reply chunks top_k = Inl TypeError)"
proof (intro conjI impI)
  assume "reply = Inr answer \<and> loads answer = Inr (JArray indices) \<and>
      list_all (accepted_index (length chunks)) (py_slice indices 0 top_k)"
  then show "rerank_with_llm loads reply chunks top_k =
        Inr (map (\<lambda>v. chunks ! position (length chunks) v) (py_slice indices 0 top_k))"
    by (simp add: rerank_with_llm_def select_accepted)
next
  assume "reply = Inr answer \<and> loads answer = Inr (JArray indices) \<and>
      \<not> list_all (accepted_index (length chunks)) (py_slice indices 0 top_k)"
  then show "rerank_with_llm loads reply chunks top_k = Inl IndexError \<or>
      rerank_with_llm loads reply chunks top_k = Inl TypeError"
    using select_rejected [of chunks "py_slice indices 0 top_k"]
    by (simp add: rerank_with_llm_def)
qed (simp_all add: rerank_with_llm_def)

theorem rerank_with_llm_unvalidated_witness:
  "rerank_with_llm sample_loads (Inl ProviderError) [scored (1/5), scored (9/10)] 3 = Inl ProviderError \<and>
   sample_loads ''The best chunks are 0 and 1'' = Inl JSONDecodeError \<and>
   rerank_with_llm sample_loads (Inr ''The best chunks are 0 and 1'') [scored (1/5), scored (9/10)] 3
     = Inl JSONDecodeError \<and>
   sample_loads ''[-1, 0]'' = Inr (JArray [JInt (- 1), JInt 0]) \<and>
   list_all (accepted_index (length [scored (1/5), scored (9/10)])) (py_slice [JInt (- 1), JInt 0] 0 3) \<and>
   rerank_with_llm sample_loads (Inr ''[-1, 0]'') [scored (1/5), scored (9/10)] 3
     = Inr [scored (9/10), scored (1/5)] \<and>
   sample_loads ''[5]'' = Inr (JArray [JInt 5]) \<and>
   list_all (accepted_index (length [scored (1/5), scored (9/10)])) (py_slice [JInt 5] 0 3) = False \<and>
   rerank_with_llm sample_loads (Inr ''[5]'') [scored (1/5), scored (9/10)] 3 = Inl IndexError"
  (is "?a \<and> ?l2 \<and> ?b \<and> ?l3 \<and> ?v3 \<and> ?c \<and> ?l4 \<and> ?v4 \<and> ?d")
proof -
  note t = rerank_with_llm_unvalidated [where loads = sample_loads
      and chunks = "[scored (1/5), scored (9/10)]" and top_k = 3]
  have l2: ?l2 by (simp add: sample_loads_def)
  have l3: ?l3 by (simp add: sample_loads_def)
  have l4: ?l4 by (simp add: sample_loads_def)
  have v3: ?v3 by (simp add: py_slice_def slice_bound_def)
  have v4: ?v4 by (simp add: py_slice_def slice_bound_def)
  have a: ?a
    by (rule mp [OF conjunct1 [OF t]]) (rule refl)
  have b: ?b
    by (rule mp [OF conjunct1 [OF conjunct2 [OF t]]]) (rule conjI, rule refl, rule l2)
  have "rerank_with_llm sample_loads (Inr ''[-1, 0]'') [scored (1/5), scored (9/10)] 3
     = Inr (map (\<lambda>v. [scored (1/5), scored (9/10)] ! position (length [scored (1/5), scored (9/10)]) v)
              (py_slice [JInt (- 1), JInt 0] 0 3))"
    by (rule mp [OF conjunct1 [OF conjunct2 [OF conjunct2 [OF t]]]])
      (rule conjI, rule refl, rule conjI, rule l3, rule v3)
  then have c: ?c by (simp add: py_slice_def slice_bound_def)
  have "rerank_with_llm sample_loads (Inr ''[5]'') [scored (1/5), scored (9/10)] 3 = Inl IndexError \<or>
      rerank_with_llm sample_loads (Inr ''[5]'') [scored (1/5), scored (9/10)] 3 = Inl TypeError"
    by (rule mp [OF conjunct2 [OF conjunct2 [OF conjunct2 [OF t]]]])
      (rule conjI, rule refl, rule conjI, rule l4, simp only: v4, simp)
  then have d: ?d
    by (simp add: rerank_with_llm_def sample_loads_def py_slice_def slice_bound_def Let_def)
  from a b c d l2 l3 l4 v3 v4 show ?thesis by blast
qed

text \<open>
  C4 as stated fails: an index out of range raises instead of falling back to
  \<open>rerank_by_score\<close>, and a repeated index is accepted.
\<close>

theorem rerank_with_llm_counterexample:
  "rerank_with_llm sample_loads (Inr ''[5]'') [scored (1/5), scored (9/10)] 3 = Inl IndexError \<and>
   rerank_with_llm sample_loads (Inr ''[0, 0]'') [scored (1/5), scored (9/10)] 3
     = Inr [scored (1/5), scored (1/5)] \<and>
   rerank_by_score [scored (1/5), scored (9/10)] 3 = [scored (9/10), scored (1/5)]"
  by (simp add: rerank_with_llm_def sample_loads_def py_slice_def slice_bound_def Let_def
      rerank_by_score_def scored_def)

section \<open>Properties of the endpoint and the widget\<close>

text \<open>
  The listing as written raises at its first call, whatever the request and the services.
  The completed reading has no fallback either: with the database unreachable, or when
  \<open>respond\<close> raises (the embedding provider, the index or the chat model fails), the exception
  leaves the handler, and the only text it ever returns is the answer of the chat model.
\<close>

lemma handle_message_TypeError:
  "handle_message svc db request = (Inl TypeError, db)"
  by (simp add: handle_message_def handle_message_with_def call_save_conversation_def)

lemma handle_message_completed_result:
  "fst (handle_message_completed svc db request) =
     (case db of
        DbUnreachable \<Rightarrow> Inl DatabaseError
      | Db conversations rows \<Rightarrow>
          (case respond svc request of
             Inl e \<Rightarrow> Inl e
           | Inr response_text \<Rightarrow>
               Inr \<lparr>response = response_text, intent = Some ''faq'', sources = None\<rparr>))"
  by (auto simp: handle_message_completed_def handle_message_with_def call_save_conversation_def
      save_conversation_def save_message_def split: supabase.splits sum.splits option.splits prod.splits)

lemma respond_raises:
  "respond svc request = Inl e \<longleftrightarrow>
     (if routes_to_faq (request_content request)
      then svc_llm svc [(''system'', svc_faq_prompt svc), (''user'', request_content request)] = Inl e
      else (case search_knowledge (svc_embed_text svc) (svc_similarity svc) (svc_index svc)
                   (request_content request) (request_tenant_id request) 3 of
              Inl e' \<Rightarrow> e' = e
            | Inr chunks \<Rightarrow>
                svc_llm svc [(''system'', ''Use this context:'' @ [newline] @ format_rag_context chunks),
                             (''user'', request_content request)] = Inl e))"
  by (simp add: respond_def handle_faq_def split: sum.splits)

lemma search_knowledge_unreachable:
  "embed_text query = Inr v \<Longrightarrow>
     search_knowledge embed_text similarity Unreachable query tenant top_k = Inl IndexUnavailable"
  by (simp add: search_knowledge_def qdrant_search_def)

text \<open>
  The widget's \<open>sendMessage\<close>, which posts to \<^verbatim>\<open>/api/v1/playground/message\<close> and not to this
  endpoint, does catch: every failure of its request ends with the fixed connection text,
  and the reply it shows is that text, the fixed text for an empty answer, or the
  \<^verbatim>\<open>response\<close> of the body.
\<close>

lemma sendMessage_caught:
  assumes "js_trim (input_value w) \<noteq> []"
    and "fetch (js_trim (input_value w)) (conversationId w) = NetworkError \<or>
         (\<exists>body. fetch (js_trim (input_value w)) (conversationId w) = Response False body) \<or>
         fetch (js_trim (input_value w)) (conversationId w) = Response True None \<or>
         fetch (js_trim (input_value w)) (conversationId w) = Response True (Some JNull)"
  shows "messages (sendMessage fetch w) =
           messages w @ [(JString (js_trim (input_value w)), ''user''),
                         (JString connection_fallback, ''assistant'')] \<and>
         \<not> typing (sendMessage fetch w)"
  using assms
  by (auto simp: sendMessage_def Let_def caught_def addMessage_def)

lemma sendMessage_reply:
  assumes "js_trim (input_value w) \<noteq> []"
  shows "\<exists>reply. messages (sendMessage fetch w) =
            messages w @ [(JString (js_trim (input_value w)), ''user''), (reply, ''assistant'')] \<and>
          (reply = JString connection_fallback \<or> reply = JString processing_fallback \<or>
           (\<exists>data. fetch (js_trim (input_value w)) (conversationId w) = Response True (Some data) \<and>
              property data ''response'' = Some reply \<and> truthy reply))"
proof (cases "fetch (js_trim (input_value w)) (conversationId w)")
  case NetworkError
  with assms show ?thesis
    by (simp add: sendMessage_def Let_def caught_def addMessage_def)
next
  case (Response ok body)
  show ?thesis
  proof (cases "ok \<and> body \<noteq> None \<and> body \<noteq> Some JNull")
    case False
    with assms Response show ?thesis
      by (auto simp: sendMessage_def Let_def caught_def addMessage_def)
  next
    case True
    then obtain data where data: "body = Some data" "data \<noteq> JNull" "ok" by auto
    have m: "messages (case property data ''conversation_id'' of
                 None \<Rightarrow> w' | Some v \<Rightarrow> if truthy v then w'\<lparr>conversationId := v\<rparr> else w') = messages w'"
      for w' :: widget
      by (simp split: option.splits)
    from data assms Response show ?thesis
      by (cases data) (auto simp: sendMessage_def Let_def addMessage_def m split: option.splits)
  qed
qed

text \<open>
  C7. The claim is what the repository asks of the endpoint: the roadmap (phase 6.1) and the
  acceptance criteria of the backend API list try/catch and graceful fallbacks as work to
  do. The endpoint does not meet it. For a question outside the FAQ keywords, with the index
  unreachable, \<open>handle_message\<close> as written raises \<^verbatim>\<open>TypeError\<close> at \<^verbatim>\<open>save_conversation(...)\<close>
  before anything is saved or searched, and in the completed reading the failure of the
  search leaves the handler once the user's message is saved. Neither returns a fallback
  text.
\<close>

theorem handle_message_raises_at_outage:
  "handle_message outage (Db [] []) opening_hours = (Inl TypeError, Db [] []) \<and>
   handle_message_completed outage (Db [] []) opening_hours =
     (Inl IndexUnavailable,
      Db [(0, ''t1'', ''u1'', ''widget'')] [(0, ''user'', ''What are your opening hours?'')])"
proof
  show "handle_message outage (Db [] []) opening_hours = (Inl TypeError, Db [] [])"
    by (simp add: handle_message_def handle_message_with_def call_save_conversation_def)
  have r: "\<not> routes_to_faq (request_content opening_hours)"
    by (simp add: routes_to_faq_def lower_def lower_char_def opening_hours_def)
  have "search_knowledge (svc_embed_text outage) (svc_similarity outage) (svc_index outage)
      (request_content opening_hours) (request_tenant_id opening_hours) 3 = Inl IndexUnavailable"
    by (simp add: search_knowledge_def qdrant_search_def outage_def unit_embedding_def)
  with r have "respond outage opening_hours = Inl IndexUnavailable"
    by (simp add: respond_def)
  then show "handle_message_completed outage (Db [] []) opening_hours =
     (Inl IndexUnavailable,
      Db [(0, ''t1'', ''u1'', ''widget'')] [(0, ''user'', ''What are your opening hours?'')])"
    by (simp add: handle_message_completed_def handle_message_with_def call_save_conversation_def
        save_conversation_def save_message_def opening_hours_def)
qed

end
